theory Spec2Isabelle
  imports
    Complex_Main
    "HOL-Library.Log_Nat"
    "HOL-Library.Multiset"
    "HOL-Library.Product_Lexorder"
    "HOL-Library.List_Lexorder"
    "HOL-Library.Char_ord"
begin

section \<open>Python values used by the quiz engine\<close>

text \<open>
  The exceptions that the modelled functions can raise.  A function that can raise returns
  \<open>py_error + 'a\<close>, with \<open>Inl\<close> for the exception that leaves the function.
\<close>

datatype py_error =
    TypeError
  | ValueError
  | KeyError
  | OverflowError
  | AttributeError
  | IndexError
  | ZeroDivisionError
  | IOError
  | JSONDecodeError
  | UnicodeDecodeError

text \<open>
  A Python \<open>float\<close> is a binary64 number: a finite value (kept as the rational it denotes), an
  infinity or a NaN.
\<close>

datatype pyfloat = Finite rat | PosInf | NegInf | NaN

text \<open>
  The values that \<open>json.load\<close> produces.  A JSON object is a \<open>dict\<close>, kept as the list of its
  items in insertion order (the keys of a \<open>dict\<close> are distinct).
\<close>

datatype json =
    JNull
  | JBool bool
  | JInt int
  | JFloat pyfloat
  | JStr string
  | JList "json list"
  | JDict "(string \<times> json) list"

section \<open>Floating-point arithmetic of the interpreter\<close>

text \<open>
  The engine computes the percentage and the duration with Python floats.  The operations
  below give the value that binary64 arithmetic returns: the exact result, rounded to the
  nearest representable number, ties to the even significand.
\<close>

definition round_half_even :: "rat \<Rightarrow> int" where
  "round_half_even x =
     (let f = \<lfloor>x\<rfloor>; d = x - of_int f
      in if d < 1 / 2 then f else if 1 / 2 < d then f + 1 else if even f then f else f + 1)"

text \<open>The binary exponent of a non-zero rational: \<open>2 powi e \<le> \<bar>x\<bar> < 2 powi (e + 1)\<close>.\<close>

definition exposant :: "rat \<Rightarrow> int" where
  "exposant x =
     (let (a, b) = quotient_of \<bar>x\<bar>; e0 = bitlen a - bitlen b
      in if 2 powi e0 \<le> \<bar>x\<bar> then e0 else e0 - 1)"

text \<open>
  Rounding to binary64: 53 significant bits, exponents from \<open>-1022\<close> (below it the spacing
  stays that of the subnormal numbers) to \<open>1023\<close> (above it the result is an infinity).
\<close>

definition fl :: "rat \<Rightarrow> pyfloat" where
  "fl x =
     (if x = 0 then Finite 0
      else let e = max (exposant x) (- 1022);
               q = 2 powi (e - 52);
               y = of_int (round_half_even (x / q)) * q
           in if 2 powi 1024 \<le> \<bar>y\<bar> then (if 0 < x then PosInf else NegInf) else Finite y)"

text \<open>
  \<open>a / b\<close> on two \<open>int\<close>s: the correctly rounded quotient; it raises when the divisor is zero
  and when the quotient is too large for a float.
\<close>

definition int_truediv :: "int \<Rightarrow> int \<Rightarrow> py_error + rat" where
  "int_truediv a b =
     (if b = 0 then Inl ZeroDivisionError
      else case fl (of_int a / of_int b) of
             Finite r \<Rightarrow> Inr r
           | _ \<Rightarrow> Inl OverflowError)"

text \<open>
  \<open>round(x, 1)\<close> on a float: infinities and NaN are returned as they are; a finite \<open>x\<close> is
  rounded to one decimal, ties to even, on its exact value, and the decimal is read back as a
  float.
\<close>

definition py_round1 :: "pyfloat \<Rightarrow> pyfloat" where
  "py_round1 x =
     (case x of
        Finite r \<Rightarrow> fl (of_int (round_half_even (r * 10)) / 10)
      | _ \<Rightarrow> x)"

definition tronquer :: "rat \<Rightarrow> int" where
  "tronquer r = (if 0 \<le> r then \<lfloor>r\<rfloor> else \<lceil>r\<rceil>)"

text \<open>\<open>int(x)\<close> on a float truncates towards zero and raises on an infinity or a NaN.\<close>

definition py_int_float :: "pyfloat \<Rightarrow> py_error + int" where
  "py_int_float x =
     (case x of
        Finite r \<Rightarrow> Inr (tronquer r)
      | NaN \<Rightarrow> Inl ValueError
      | _ \<Rightarrow> Inl OverflowError)"

text \<open>\<open>str(n)\<close> on an \<open>int\<close>: its decimal digits, with a minus sign when negative.\<close>

fun chiffres :: "nat \<Rightarrow> string" where
  "chiffres n =
     (if n < 10 then [''0123456789'' ! n]
      else chiffres (n div 10) @ [''0123456789'' ! (n mod 10)])"

definition str_int :: "int \<Rightarrow> string" where
  "str_int i = (if i < 0 then CHR ''-'' # chiffres (nat (- i)) else chiffres (nat i))"

section \<open>Data model\<close>

text \<open>The dataclass \<open>Question\<close>.  Its field \<open>id\<close> is named \<open>id_question\<close> here.\<close>

record Question =
  id_question :: int
  theme :: string
  niveau :: string
  texte :: string
  options :: "json list"
  bonne_option :: int

definition est_reponse_correcte :: "Question \<Rightarrow> int \<Rightarrow> bool" where
  "est_reponse_correcte q index = (index = bonne_option q)"

text \<open>The dataclass \<open>ReponseQuestion\<close>.  The response time is a number that is only stored.\<close>

record ReponseQuestion =
  numero :: int
  question :: Question
  reponse_choisie :: "int option"
  est_correcte :: bool
  temps_ecoule :: bool
  temps_reponse :: rat

section \<open>The quiz engine \<open>MoteurQuiz\<close>\<close>

record MoteurQuiz =
  questions :: "Question list"
  nom_joueur :: string
  index_question_actuelle :: int
  score :: int
  bonnes :: int
  mauvaises :: int
  temps_ecoules :: int
  historique_reponses :: "ReponseQuestion list"
  horodatage_debut :: rat
  horodatage_fin :: "rat option"

text \<open>\<open>__init__\<close>; the reading of the clock, \<open>time.time()\<close>, is the argument \<open>maintenant\<close>.\<close>

definition MoteurQuiz_init :: "Question list \<Rightarrow> string \<Rightarrow> rat \<Rightarrow> MoteurQuiz" where
  "MoteurQuiz_init qs nom maintenant =
     \<lparr> questions = qs, nom_joueur = nom, index_question_actuelle = 0, score = 0, bonnes = 0,
       mauvaises = 0, temps_ecoules = 0, historique_reponses = [],
       horodatage_debut = maintenant, horodatage_fin = None \<rparr>"

definition obtenir_question_actuelle :: "MoteurQuiz \<Rightarrow> Question option" where
  "obtenir_question_actuelle m =
     (if 0 \<le> index_question_actuelle m \<and> index_question_actuelle m < int (length (questions m))
      then Some (questions m ! nat (index_question_actuelle m))
      else None)"

definition obtenir_numero_question :: "MoteurQuiz \<Rightarrow> int" where
  "obtenir_numero_question m = index_question_actuelle m + 1"

definition obtenir_total_questions :: "MoteurQuiz \<Rightarrow> int" where
  "obtenir_total_questions m = int (length (questions m))"

definition est_termine :: "MoteurQuiz \<Rightarrow> bool" where
  "est_termine m = (index_question_actuelle m \<ge> int (length (questions m)))"

text \<open>
  The judgement made by \<open>enregistrer_reponse\<close>: \<open>est_correcte\<close> starts as \<open>False\<close> and is
  computed from the question only when the time has not run out and an index was given.
\<close>

definition juger :: "Question \<Rightarrow> int option \<Rightarrow> bool \<Rightarrow> bool" where
  "juger q index_reponse tps_ecoule =
     (case index_reponse of
        None \<Rightarrow> False
      | Some i \<Rightarrow> if \<not> tps_ecoule then est_reponse_correcte q i else False)"

definition enregistrer_reponse :: "MoteurQuiz \<Rightarrow> int option \<Rightarrow> bool \<Rightarrow> rat \<Rightarrow> MoteurQuiz" where
  "enregistrer_reponse m index_reponse tps_ecoule tps_reponse =
     (case obtenir_question_actuelle m of
        None \<Rightarrow> m
      | Some q \<Rightarrow>
          let correcte = juger q index_reponse tps_ecoule;
              m1 = (if correcte
                    then m\<lparr> bonnes := bonnes m + 1, score := score m + 1 \<rparr>
                    else if tps_ecoule
                      then m\<lparr> mauvaises := mauvaises m + 1, temps_ecoules := temps_ecoules m + 1 \<rparr>
                      else m\<lparr> mauvaises := mauvaises m + 1 \<rparr>);
              reponse = \<lparr> numero = obtenir_numero_question m1, question = q,
                          reponse_choisie = index_reponse, est_correcte = correcte,
                          temps_ecoule = tps_ecoule, temps_reponse = tps_reponse \<rparr>
          in m1\<lparr> historique_reponses := historique_reponses m1 @ [reponse],
                 index_question_actuelle := index_question_actuelle m1 + 1 \<rparr>)"

text \<open>
  The dictionary returned by \<open>obtenir_resultats\<close>, one field for each key.  The keys
  \<open>theme\<close>, \<open>niveau\<close>, \<open>bonnes\<close>, \<open>mauvaises\<close> and \<open>temps_ecoules\<close> carry the suffix \<open>_r\<close>.
\<close>

record Resultats =
  id_partie :: string
  joueur_nom :: string
  date_heure :: string
  theme_r :: string
  niveau_r :: string
  nombre_questions :: int
  bonnes_r :: int
  mauvaises_r :: int
  temps_ecoules_r :: int
  score_total :: int
  pourcentage :: pyfloat
  duree_seconds :: int

text \<open>
  What \<open>obtenir_resultats\<close> reads from outside: the two readings of \<open>time.time()\<close> (for the
  end of the session, then for the identifier) and the text of
  \<open>datetime.now(timezone.utc).isoformat()\<close>.
\<close>

record Horloge =
  temps_fin :: rat
  temps_id :: rat
  date_iso :: string

text \<open>
  The expression used for \<open>theme\<close> and for \<open>niveau\<close>: the condition on the set of values is
  evaluated first, and \<open>self.questions[0]\<close> only when it holds.
\<close>

definition valeur_commune :: "(Question \<Rightarrow> string) \<Rightarrow> Question list \<Rightarrow> py_error + string" where
  "valeur_commune champ qs =
     (if card (set (map champ qs)) = 1
      then (case qs of [] \<Rightarrow> Inl IndexError | q # _ \<Rightarrow> Inr (champ q))
      else Inr ''mix'')"

definition calculer_pourcentage :: "int \<Rightarrow> int \<Rightarrow> py_error + pyfloat" where
  "calculer_pourcentage b n_total =
     (if n_total > 0
      then (case int_truediv b n_total of
              Inl e \<Rightarrow> Inl e
            | Inr x \<Rightarrow> Inr (py_round1 (fl (x * 100))))
      else Inr (Finite 0))"

text \<open>
  \<open>obtenir_resultats\<close> stores the end time in the engine, so the engine is returned too.  The
  steps run in the order of the source; the first exception ends the call.
\<close>

definition obtenir_resultats :: "Horloge \<Rightarrow> MoteurQuiz \<Rightarrow> (py_error + Resultats) \<times> MoteurQuiz" where
  "obtenir_resultats h m =
     (let m1 = m\<lparr> horodatage_fin := Some (temps_fin h) \<rparr>;
          n_total = int (length (questions m1));
          resultat =
            (case py_int_float (fl (temps_fin h - horodatage_debut m1)) of
               Inl e \<Rightarrow> Inl e
             | Inr duree \<Rightarrow>
            (case calculer_pourcentage (bonnes m1) n_total of
               Inl e \<Rightarrow> Inl e
             | Inr pct \<Rightarrow>
            (case valeur_commune theme (questions m1) of
               Inl e \<Rightarrow> Inl e
             | Inr th \<Rightarrow>
            (case valeur_commune niveau (questions m1) of
               Inl e \<Rightarrow> Inl e
             | Inr nv \<Rightarrow>
                 Inr \<lparr> id_partie = nom_joueur m1 @ ''_'' @ str_int (tronquer (temps_id h)),
                       joueur_nom = nom_joueur m1,
                       date_heure = date_iso h,
                       theme_r = th,
                       niveau_r = nv,
                       nombre_questions = n_total,
                       bonnes_r = bonnes m1,
                       mauvaises_r = mauvaises m1,
                       temps_ecoules_r = temps_ecoules m1,
                       score_total = score m1,
                       pourcentage = pct,
                       duree_seconds = duree \<rparr>))))
      in (resultat, m1))"

text \<open>
  A session as the window drives it: one call of \<open>enregistrer_reponse\<close> for each answer, in
  order.  An answer is the triple (chosen index, time ran out, response time).
\<close>

fun jouer :: "MoteurQuiz \<Rightarrow> (int option \<times> bool \<times> rat) list \<Rightarrow> MoteurQuiz" where
  "jouer m [] = m"
| "jouer m ((a, t, r) # reste) = jouer (enregistrer_reponse m a t r) reste"

section \<open>The question bank \<open>BanqueQuestions\<close>\<close>

subsection \<open>Built-in conversions applied to a loaded value\<close>

text \<open>
  Three functions of the interpreter are taken as they are: the reading of an integer
  literal out of a \<open>str\<close> (\<open>None\<close> when the text is not one), the text that \<open>str()\<close> gives for
  a value that is not a \<open>str\<close>, and what \<open>list.sort\<close> does with keys that are not all numbers
  and texts, where the outcome depends on the comparisons that the sort happens to make (it
  is given the keys with their items, and raises or returns the items in some order).
\<close>

record Interpreteur =
  int_de_str :: "string \<Rightarrow> int option"
  repr_valeur :: "json \<Rightarrow> string"
  tri_quelconque :: "((json \<times> json \<times> json) \<times> json) list \<Rightarrow> py_error + json list"

text \<open>\<open>int(v)\<close>.\<close>

definition py_int :: "Interpreteur \<Rightarrow> json \<Rightarrow> py_error + int" where
  "py_int py v =
     (case v of
        JInt i \<Rightarrow> Inr i
      | JBool b \<Rightarrow> Inr (if b then 1 else 0)
      | JFloat x \<Rightarrow> py_int_float x
      | JStr t \<Rightarrow> (case int_de_str py t of None \<Rightarrow> Inl ValueError | Some i \<Rightarrow> Inr i)
      | JNull \<Rightarrow> Inl TypeError
      | JList _ \<Rightarrow> Inl TypeError
      | JDict _ \<Rightarrow> Inl TypeError)"

text \<open>\<open>str(v)\<close>; it never raises.\<close>

definition py_str :: "Interpreteur \<Rightarrow> json \<Rightarrow> string" where
  "py_str py v = (case v of JStr t \<Rightarrow> t | _ \<Rightarrow> repr_valeur py v)"

text \<open>
  \<open>list(v)\<close>: a list is copied, a \<open>str\<close> gives its characters, a \<open>dict\<close> its keys; nothing else
  is iterable.
\<close>

definition py_list :: "json \<Rightarrow> py_error + json list" where
  "py_list v =
     (case v of
        JList xs \<Rightarrow> Inr xs
      | JStr t \<Rightarrow> Inr (map (\<lambda>c. JStr [c]) t)
      | JDict kvs \<Rightarrow> Inr (map (\<lambda>kv. JStr (fst kv)) kvs)
      | _ \<Rightarrow> Inl TypeError)"

text \<open>
  \<open>k in element\<close> for a \<open>str\<close> \<open>k\<close>: a key of a \<open>dict\<close>, an item of a list, a substring of a
  \<open>str\<close>; on any other value the test raises.
\<close>

fun sous_chaine :: "string \<Rightarrow> string \<Rightarrow> bool" where
  "sous_chaine k [] = (k = [])"
| "sous_chaine k (c # t) = (take (length k) (c # t) = k \<or> sous_chaine k t)"

definition py_in :: "string \<Rightarrow> json \<Rightarrow> py_error + bool" where
  "py_in k element =
     (case element of
        JDict kvs \<Rightarrow> Inr (k \<in> set (map fst kvs))
      | JList xs \<Rightarrow> Inr (JStr k \<in> set xs)
      | JStr t \<Rightarrow> Inr (sous_chaine k t)
      | _ \<Rightarrow> Inl TypeError)"

text \<open>\<open>element[k]\<close> for a \<open>str\<close> \<open>k\<close>.\<close>

definition py_getitem :: "json \<Rightarrow> string \<Rightarrow> py_error + json" where
  "py_getitem element k =
     (case element of
        JDict kvs \<Rightarrow> (case map_of kvs k of None \<Rightarrow> Inl KeyError | Some v \<Rightarrow> Inr v)
      | _ \<Rightarrow> Inl TypeError)"

text \<open>\<open>element.get(k)\<close>: only a \<open>dict\<close> has the method.\<close>

definition py_get :: "json \<Rightarrow> string \<Rightarrow> py_error + json" where
  "py_get element k =
     (case element of
        JDict kvs \<Rightarrow> (case map_of kvs k of None \<Rightarrow> Inr JNull | Some v \<Rightarrow> Inr v)
      | _ \<Rightarrow> Inl AttributeError)"

subsection \<open>Loading a file of questions\<close>

text \<open>What \<open>print\<close> writes while a file is loaded.\<close>

datatype avertissement =
    PasUneListe string
  | ErreurQuestion json py_error
  | LectureImpossible string py_error

text \<open>
  What opening and decoding a file gives: the open fails, the bytes are not UTF-8, the text
  is not JSON, or the decoded value.
\<close>

datatype lecture = OuvertureEchoue | PasUTF8 | PasJSON | Donnees json

text \<open>The state changed while loading: the list \<open>self.questions\<close> and the printed lines.\<close>

type_synonym etat_chargement = "Question list \<times> avertissement list"

definition champs_requis :: "string list" where
  "champs_requis = [''id'', ''theme'', ''niveau'', ''texte'', ''options'', ''bonne_option'']"

text \<open>
  \<open>all(k in element for k in (...))\<close>: the tests run in order and stop at the first that is
  false or raises.
\<close>

fun tous_presents :: "string list \<Rightarrow> json \<Rightarrow> py_error + bool" where
  "tous_presents [] element = Inr True"
| "tous_presents (k # ks) element =
     (case py_in k element of
        Inl e \<Rightarrow> Inl e
      | Inr False \<Rightarrow> Inr False
      | Inr True \<Rightarrow> tous_presents ks element)"

text \<open>
  The construction \<open>Question(id=int(element["id"]), ...)\<close>: the six arguments are evaluated
  from left to right and the first exception ends the construction.
\<close>

definition construire_question :: "Interpreteur \<Rightarrow> json \<Rightarrow> py_error + Question" where
  "construire_question py element =
     (case py_getitem element ''id'' of Inl e \<Rightarrow> Inl e | Inr v_id \<Rightarrow>
     (case py_int py v_id of Inl e \<Rightarrow> Inl e | Inr i \<Rightarrow>
     (case py_getitem element ''theme'' of Inl e \<Rightarrow> Inl e | Inr v_theme \<Rightarrow>
     (case py_getitem element ''niveau'' of Inl e \<Rightarrow> Inl e | Inr v_niveau \<Rightarrow>
     (case py_getitem element ''texte'' of Inl e \<Rightarrow> Inl e | Inr v_texte \<Rightarrow>
     (case py_getitem element ''options'' of Inl e \<Rightarrow> Inl e | Inr v_options \<Rightarrow>
     (case py_list v_options of Inl e \<Rightarrow> Inl e | Inr opts \<Rightarrow>
     (case py_getitem element ''bonne_option'' of Inl e \<Rightarrow> Inl e | Inr v_bonne \<Rightarrow>
     (case py_int py v_bonne of Inl e \<Rightarrow> Inl e | Inr b \<Rightarrow>
        Inr \<lparr> id_question = i, theme = py_str py v_theme, niveau = py_str py v_niveau,
              texte = py_str py v_texte, options = opts, bonne_option = b \<rparr>)))))))))"

text \<open>The exceptions named by the \<open>except\<close> clause inside the loop.\<close>

definition rattrapee :: "py_error \<Rightarrow> bool" where
  "rattrapee e = (e = ValueError \<or> e = TypeError \<or> e = KeyError)"

text \<open>
  One turn of the loop over the records.  The test of the required keys stands before the
  \<open>try\<close>, so what it raises leaves the function; so does what the handler raises when it
  calls \<open>element.get\<close>.
\<close>

definition charger_element :: "Interpreteur \<Rightarrow> json \<Rightarrow> etat_chargement \<Rightarrow> py_error + etat_chargement" where
  "charger_element py element etat =
     (case tous_presents champs_requis element of
        Inl e \<Rightarrow> Inl e
      | Inr False \<Rightarrow> Inr etat
      | Inr True \<Rightarrow>
          (case construire_question py element of
             Inr q \<Rightarrow>
               if \<not> (0 \<le> bonne_option q \<and> bonne_option q < int (length (options q)))
               then Inr etat
               else Inr (fst etat @ [q], snd etat)
           | Inl e \<Rightarrow>
               if rattrapee e
               then (case py_get element ''id'' of
                       Inl e' \<Rightarrow> Inl e'
                     | Inr v \<Rightarrow> Inr (fst etat, snd etat @ [ErreurQuestion v e]))
               else Inl e))"

fun charger_elements :: "Interpreteur \<Rightarrow> json list \<Rightarrow> etat_chargement \<Rightarrow> py_error + etat_chargement" where
  "charger_elements py [] etat = Inr etat"
| "charger_elements py (element # reste) etat =
     (case charger_element py element etat of
        Inl e \<Rightarrow> Inl e
      | Inr etat' \<Rightarrow> charger_elements py reste etat')"

text \<open>
  \<open>_charger_fichier\<close>.  The outer \<open>except\<close> clause names \<open>IOError\<close> and \<open>JSONDecodeError\<close> only,
  and no step of the loop raises either of them.
\<close>

definition charger_fichier :: "Interpreteur \<Rightarrow> string \<Rightarrow> lecture \<Rightarrow> etat_chargement \<Rightarrow> py_error + etat_chargement" where
  "charger_fichier py chemin contenu etat =
     (case contenu of
        OuvertureEchoue \<Rightarrow> Inr (fst etat, snd etat @ [LectureImpossible chemin IOError])
      | PasJSON \<Rightarrow> Inr (fst etat, snd etat @ [LectureImpossible chemin JSONDecodeError])
      | PasUTF8 \<Rightarrow> Inl UnicodeDecodeError
      | Donnees (JList elements) \<Rightarrow> charger_elements py elements etat
      | Donnees _ \<Rightarrow> Inr (fst etat, snd etat @ [PasUneListe chemin]))"

text \<open>
  What \<open>_charger_questions\<close> finds: the directory with its \<open>*.json\<close> files in sorted order, or
  else the single file \<open>questions.json\<close>, or nothing.
\<close>

datatype sources = Dossier "(string \<times> lecture) list" | FichierUnique lecture | AucuneSource

fun charger_fichiers :: "Interpreteur \<Rightarrow> (string \<times> lecture) list \<Rightarrow> etat_chargement \<Rightarrow> py_error + etat_chargement" where
  "charger_fichiers py [] etat = Inr etat"
| "charger_fichiers py ((chemin, contenu) # reste) etat =
     (case charger_fichier py chemin contenu etat of
        Inl e \<Rightarrow> Inl e
      | Inr etat' \<Rightarrow> charger_fichiers py reste etat')"

definition charger_questions :: "Interpreteur \<Rightarrow> sources \<Rightarrow> etat_chargement \<Rightarrow> py_error + etat_chargement" where
  "charger_questions py src etat =
     (case src of
        Dossier fichiers \<Rightarrow> charger_fichiers py fichiers etat
      | FichierUnique contenu \<Rightarrow> charger_fichier py ''questions.json'' contenu etat
      | AucuneSource \<Rightarrow> Inr etat)"

text \<open>The bank: its list of questions and the name of its directory.\<close>

record BanqueQuestions =
  bq_questions :: "Question list"
  dossier :: string

text \<open>\<open>__init__\<close>: the bank exists only when the loading has not raised.\<close>

definition BanqueQuestions_init :: "Interpreteur \<Rightarrow> string \<Rightarrow> sources \<Rightarrow> py_error + (BanqueQuestions \<times> avertissement list)" where
  "BanqueQuestions_init py d src =
     (case charger_questions py src ([], []) of
        Inl e \<Rightarrow> Inl e
      | Inr (qs, journal) \<Rightarrow> Inr (\<lparr> bq_questions = qs, dossier = d \<rparr>, journal))"

subsection \<open>Filtering and sampling\<close>

text \<open>
  \<open>filtrer\<close> returns either the very list object held by the bank (when no filter applies) or
  a list it has just built.  The two cases are kept apart, because \<open>random.shuffle\<close> changes
  the list in place.
\<close>

datatype reference_liste = ListeDeLaBanque | NouvelleListe "Question list"

definition contenu_liste :: "BanqueQuestions \<Rightarrow> reference_liste \<Rightarrow> Question list" where
  "contenu_liste b r = (case r of ListeDeLaBanque \<Rightarrow> bq_questions b | NouvelleListe qs \<Rightarrow> qs)"

text \<open>A filter applies when it is a non-empty list: \<open>None\<close> and \<open>[]\<close> are both false.\<close>

definition filtrer :: "BanqueQuestions \<Rightarrow> string list option \<Rightarrow> string list option \<Rightarrow> reference_liste" where
  "filtrer b themes niveaux =
     (let resultat =
            (case themes of
               Some (t # ts) \<Rightarrow> NouvelleListe (filter (\<lambda>q. theme q \<in> set (t # ts)) (bq_questions b))
             | _ \<Rightarrow> ListeDeLaBanque)
      in (case niveaux of
            Some (n # ns) \<Rightarrow>
              NouvelleListe (filter (\<lambda>q. niveau q \<in> set (n # ns)) (contenu_liste b resultat))
          | _ \<Rightarrow> resultat))"

text \<open>
  The generator of the module \<open>random\<close> is the sequence of the numbers that its successive
  draws will give; a draw below \<open>n\<close> (\<open>_randbelow(n)\<close>) takes the next one modulo \<open>n\<close>, so
  every value below \<open>n\<close> can come out.
\<close>

type_synonym alea = "nat \<Rightarrow> nat"

definition suite :: "alea \<Rightarrow> alea" where
  "suite g = (\<lambda>k. g (Suc k))"

text \<open>
  \<open>random.shuffle(x)\<close>: for \<open>i\<close> from the last index down to 1, draw \<open>j\<close> below \<open>i + 1\<close> and
  exchange the items at \<open>i\<close> and \<open>j\<close>.
\<close>

fun melanger :: "nat \<Rightarrow> 'a list \<Rightarrow> alea \<Rightarrow> 'a list \<times> alea" where
  "melanger 0 xs g = (xs, g)"
| "melanger (Suc i) xs g =
     (let j = g 0 mod (Suc (Suc i))
      in melanger i (xs[Suc i := xs ! j, j := xs ! Suc i]) (suite g))"

definition random_shuffle :: "'a list \<Rightarrow> alea \<Rightarrow> 'a list \<times> alea" where
  "random_shuffle xs g = melanger (length xs - 1) xs g"

text \<open>
  \<open>random.sample(population, k)\<close> raises unless \<open>0 \<le> k \<le> len(population)\<close>.  It then works in
  one of two ways, by the size of the population.  Up to \<open>setsize\<close> items, it copies the
  population into a pool and draws \<open>k\<close> times a position among those left, each time moving
  the last remaining item into the position drawn.
\<close>

fun tirer :: "nat \<Rightarrow> nat \<Rightarrow> 'a list \<Rightarrow> alea \<Rightarrow> 'a list \<times> alea" where
  "tirer 0 restant bassin g = ([], g)"
| "tirer (Suc k) restant bassin g =
     (let j = g 0 mod restant;
          (suivants, g') = tirer k (restant - 1) (bassin[j := bassin ! (restant - 1)]) (suite g)
      in (bassin ! j # suivants, g'))"

text \<open>
  Above \<open>setsize\<close> items, it keeps the positions already selected and draws each new position
  again and again until it is not one of them.  This inner loop ends only if the generator
  gives such a position: \<open>None\<close> stands for a loop that never ends.
\<close>

partial_function (option) tirer_nouveau :: "nat list \<Rightarrow> nat \<Rightarrow> alea \<Rightarrow> (nat \<times> alea) option" where
  "tirer_nouveau choisis n g =
     (if g 0 mod n \<in> set choisis then tirer_nouveau choisis n (suite g)
      else Some (g 0 mod n, suite g))"

fun tirer_distincts :: "nat \<Rightarrow> nat list \<Rightarrow> 'a list \<Rightarrow> alea \<Rightarrow> ('a list \<times> alea) option" where
  "tirer_distincts 0 choisis population g = Some ([], g)"
| "tirer_distincts (Suc k) choisis population g =
     (case tirer_nouveau choisis (length population) g of
        None \<Rightarrow> None
      | Some (j, g') \<Rightarrow>
          (case tirer_distincts k (j # choisis) population g' of
             None \<Rightarrow> None
           | Some (suivants, g'') \<Rightarrow> Some (population ! j # suivants, g'')))"

text \<open>
  \<open>setsize\<close> is 21, plus \<open>4 ** ceil(log(k * 3, 4))\<close> when \<open>k > 5\<close>.  \<open>plafond_log4 x\<close> is the least
  \<open>m\<close> with \<open>x \<le> 4 ^ m\<close>, which is what the floating-point expression gives for every \<open>k\<close>
  below \<open>10 ^ 14\<close>.
\<close>

function plafond_log4 :: "nat \<Rightarrow> nat" where
  "plafond_log4 x = (if x \<le> 1 then 0 else Suc (plafond_log4 ((x + 3) div 4)))"
  by pat_completeness auto
termination
  by (relation "measure (\<lambda>x. x)") auto

definition taille_ensemble :: "int \<Rightarrow> nat" where
  "taille_ensemble k = (if 5 < k then 21 + 4 ^ plafond_log4 (nat (k * 3)) else 21)"

definition random_sample :: "'a list \<Rightarrow> int \<Rightarrow> alea \<Rightarrow> (py_error + ('a list \<times> alea)) option" where
  "random_sample population k g =
     (if \<not> (0 \<le> k \<and> k \<le> int (length population)) then Some (Inl ValueError)
      else if length population \<le> taille_ensemble k
        then Some (Inr (tirer (nat k) (length population) population g))
        else map_option Inr (tirer_distincts (nat k) [] population g))"

definition NOMBRE_QUESTIONS_MAX :: int where
  "NOMBRE_QUESTIONS_MAX = 10"

text \<open>
  \<open>echantillonner_questions\<close> returns the questions (or raises), the bank as the call leaves
  it, and the generator after the draws; \<open>None\<close> when \<open>random.sample\<close> does not return.  The
  slice \<open>reserve[:nombre]\<close> is taken where \<open>nombre\<close> is at least the length of \<open>reserve\<close>, which
  is positive there.
\<close>

definition echantillonner_questions ::
  "alea \<Rightarrow> BanqueQuestions \<Rightarrow> int \<Rightarrow> string list option
     \<Rightarrow> ((py_error + Question list) \<times> BanqueQuestions \<times> alea) option" where
  "echantillonner_questions g b nombre themes =
     (let nombre' = min nombre NOMBRE_QUESTIONS_MAX;
          r = filtrer b themes None;
          reserve = contenu_liste b r
      in if reserve = [] then Some (Inr [], b, g)
         else if int (length reserve) \<le> nombre'
         then (let (melange, g') = random_shuffle reserve g;
                   b' = (case r of
                           ListeDeLaBanque \<Rightarrow> b\<lparr> bq_questions := melange \<rparr>
                         | NouvelleListe _ \<Rightarrow> b)
               in Some (Inr (take (nat nombre') melange), b', g'))
         else (case random_sample reserve nombre' g of
                 None \<Rightarrow> None
               | Some (Inl e) \<Rightarrow> Some (Inl e, b, g)
               | Some (Inr (echantillon, g')) \<Rightarrow> Some (Inr echantillon, b, g')))"

section \<open>The score store \<open>Stockage\<close>\<close>

text \<open>
  The state of a file: missing, holding bytes that are not UTF-8, holding text that is not
  JSON, or holding a JSON value.  An entry of the score log is the JSON value found at its
  place in the list; the entries that the program writes are objects with the keys of
  \<open>obtenir_resultats\<close>.
\<close>

datatype fichier = Absent | MalEncode | Illisible | Contenu json

text \<open>
  \<open>charger_tous\<close> returns whatever \<open>json.load\<close> gave, and \<open>[]\<close> on an \<open>IOError\<close> or a
  \<open>JSONDecodeError\<close>; a \<open>UnicodeDecodeError\<close> is neither of them.
\<close>

definition charger_tous :: "fichier \<Rightarrow> py_error + json" where
  "charger_tous f =
     (case f of
        Contenu v \<Rightarrow> Inr v
      | MalEncode \<Rightarrow> Inl UnicodeDecodeError
      | _ \<Rightarrow> Inr (JList []))"

text \<open>The two files that \<open>sauvegarder_score\<close> touches: the store and \<open>chemin + ".tmp"\<close>.\<close>

record disque =
  fichier_scores :: fichier
  fichier_temp :: fichier

text \<open>
  Where the file system fails during the write: not at all, when the temporary file is
  opened, while \<open>json.dump\<close> writes into it, or in \<open>os.replace\<close>.
\<close>

datatype panne = SansPanne | OuvertureImpossible | EcritureInterrompue | RemplacementImpossible

datatype message = ErreurSauvegarde

text \<open>
  \<open>sauvegarder_score\<close> returns what the caller receives (an exception or \<open>None\<close>), the files
  and the printed lines.  Only a list has the method \<open>append\<close>.  Interrupted writing leaves
  the start of the text in the temporary file, which is not a JSON document.
\<close>

definition sauvegarder_score ::
  "panne \<Rightarrow> disque \<Rightarrow> json \<Rightarrow> (py_error + unit) \<times> disque \<times> message list" where
  "sauvegarder_score p d entree =
     (case charger_tous (fichier_scores d) of
        Inl e \<Rightarrow> (Inl e, d, [])
      | Inr (JList tous) \<Rightarrow>
          (case p of
             OuvertureImpossible \<Rightarrow> (Inr (), d, [ErreurSauvegarde])
           | EcritureInterrompue \<Rightarrow> (Inr (), d\<lparr> fichier_temp := Illisible \<rparr>, [ErreurSauvegarde])
           | RemplacementImpossible \<Rightarrow>
               (Inr (), d\<lparr> fichier_temp := Contenu (JList (tous @ [entree])) \<rparr>,
                [ErreurSauvegarde])
           | SansPanne \<Rightarrow>
               (Inr (), \<lparr> fichier_scores = Contenu (JList (tous @ [entree])),
                         fichier_temp = Absent \<rparr>, []))
      | Inr _ \<Rightarrow> (Inl AttributeError, d, []))"

text \<open>\<open>s.get(k, defaut)\<close>: only a \<open>dict\<close> has the method.\<close>

definition py_get_defaut :: "json \<Rightarrow> string \<Rightarrow> json \<Rightarrow> py_error + json" where
  "py_get_defaut s k defaut =
     (case s of
        JDict kvs \<Rightarrow> (case map_of kvs k of None \<Rightarrow> Inr defaut | Some v \<Rightarrow> Inr v)
      | _ \<Rightarrow> Inl AttributeError)"

text \<open>The unary minus: on an \<open>int\<close>, a \<open>bool\<close> (taken as 0 or 1) and a \<open>float\<close>.\<close>

definition py_neg :: "json \<Rightarrow> py_error + json" where
  "py_neg v =
     (case v of
        JInt i \<Rightarrow> Inr (JInt (- i))
      | JBool b \<Rightarrow> Inr (JInt (if b then - 1 else 0))
      | JFloat (Finite r) \<Rightarrow> Inr (JFloat (Finite (- r)))
      | JFloat PosInf \<Rightarrow> Inr (JFloat NegInf)
      | JFloat NegInf \<Rightarrow> Inr (JFloat PosInf)
      | JFloat NaN \<Rightarrow> Inr (JFloat NaN)
      | _ \<Rightarrow> Inl TypeError)"

text \<open>
  The sort key \<open>cle_tri\<close>, with the defaults of \<open>dict.get\<close>; the three components are
  evaluated from left to right.
\<close>

definition cle_tri :: "json \<Rightarrow> py_error + (json \<times> json \<times> json)" where
  "cle_tri s =
     (case py_get_defaut s ''score_total'' (JInt 0) of Inl e \<Rightarrow> Inl e | Inr v1 \<Rightarrow>
     (case py_neg v1 of Inl e \<Rightarrow> Inl e | Inr k1 \<Rightarrow>
     (case py_get_defaut s ''pourcentage'' (JInt 0) of Inl e \<Rightarrow> Inl e | Inr v2 \<Rightarrow>
     (case py_neg v2 of Inl e \<Rightarrow> Inl e | Inr k2 \<Rightarrow>
     (case py_get_defaut s ''date_heure'' (JStr []) of Inl e \<Rightarrow> Inl e | Inr k3 \<Rightarrow>
        Inr (k1, k2, k3))))))"

text \<open>
  Keys made of two finite numbers and a text are ordered as tuples: numbers by their value
  (\<open>int\<close> and \<open>float\<close> compare exactly), texts character by character.
\<close>

definition rang_nombre :: "json \<Rightarrow> rat option" where
  "rang_nombre v =
     (case v of
        JInt i \<Rightarrow> Some (of_int i)
      | JFloat (Finite r) \<Rightarrow> Some r
      | _ \<Rightarrow> None)"

definition cle_ordonnee :: "json \<times> json \<times> json \<Rightarrow> (rat \<times> rat \<times> string) option" where
  "cle_ordonnee c =
     (case c of (k1, k2, k3) \<Rightarrow>
        (case rang_nombre k1 of None \<Rightarrow> None | Some r1 \<Rightarrow>
        (case rang_nombre k2 of None \<Rightarrow> None | Some r2 \<Rightarrow>
        (case k3 of JStr t \<Rightarrow> Some (r1, r2, t) | _ \<Rightarrow> None))))"

text \<open>
  \<open>tous_scores.sort(key=cle_tri)\<close>: the keys of all the items are computed first, in order,
  and the first exception ends the call.  The sort is stable, as \<open>sort_key\<close> is.
\<close>

fun calculer_cles :: "json list \<Rightarrow> py_error + (json \<times> json \<times> json) list" where
  "calculer_cles [] = Inr []"
| "calculer_cles (s # reste) =
     (case cle_tri s of
        Inl e \<Rightarrow> Inl e
      | Inr c \<Rightarrow> (case calculer_cles reste of Inl e \<Rightarrow> Inl e | Inr cs \<Rightarrow> Inr (c # cs)))"

definition list_sort :: "Interpreteur \<Rightarrow> json list \<Rightarrow> py_error + json list" where
  "list_sort py xs =
     (case calculer_cles xs of
        Inl e \<Rightarrow> Inl e
      | Inr cles \<Rightarrow>
          (case those (map cle_ordonnee cles) of
             Some ks \<Rightarrow> Inr (map snd (sort_key fst (zip ks xs)))
           | None \<Rightarrow> if length xs < 2 then Inr xs else tri_quelconque py (zip cles xs)))"

text \<open>The comprehension \<open>[s for s in tous_scores if s.get("theme") == theme]\<close> on the items.\<close>

fun filtrer_theme :: "string \<Rightarrow> json list \<Rightarrow> py_error + json list" where
  "filtrer_theme th [] = Inr []"
| "filtrer_theme th (s # reste) =
     (case py_get s ''theme'' of
        Inl e \<Rightarrow> Inl e
      | Inr v \<Rightarrow>
          (case filtrer_theme th reste of
             Inl e \<Rightarrow> Inl e
           | Inr xs \<Rightarrow> Inr (if v = JStr th then s # xs else xs)))"

text \<open>The slice \<open>xs[:n]\<close>: a negative \<open>n\<close> counts from the end.\<close>

definition tranche_debut :: "'a list \<Rightarrow> int \<Rightarrow> 'a list" where
  "tranche_debut xs n = (if 0 \<le> n then take (nat n) xs else take (nat (int (length xs) + n)) xs)"

text \<open>
  \<open>top_n\<close>.  The theme filters when it is a non-empty \<open>str\<close>; the comprehension then iterates
  over whatever was loaded and builds a list.  Without a filter the loaded value itself is
  sorted, and only a list has the method \<open>sort\<close>.
\<close>

definition top_n :: "Interpreteur \<Rightarrow> fichier \<Rightarrow> int \<Rightarrow> string option \<Rightarrow> py_error + json list" where
  "top_n py f n th =
     (case charger_tous f of
        Inl e \<Rightarrow> Inl e
      | Inr tous \<Rightarrow>
          (case (case th of
                   Some (c # cs) \<Rightarrow>
                     (case py_list tous of
                        Inl e \<Rightarrow> Inl e
                      | Inr elements \<Rightarrow> filtrer_theme (c # cs) elements)
                 | _ \<Rightarrow> (case tous of JList xs \<Rightarrow> Inr xs | _ \<Rightarrow> Inl AttributeError)) of
             Inl e \<Rightarrow> Inl e
           | Inr scores \<Rightarrow>
               (case list_sort py scores of
                  Inl e \<Rightarrow> Inl e
                | Inr tries \<Rightarrow> Inr (tranche_debut tries n))))"

text \<open>
  The ordered key of an entry, when \<open>cle_tri\<close> returns for it and gives two finite numbers and
  a text; the entries that the program writes all have one.
\<close>

definition cle_reguliere :: "json \<Rightarrow> (rat \<times> rat \<times> string) option" where
  "cle_reguliere s = (case cle_tri s of Inl e \<Rightarrow> None | Inr c \<Rightarrow> cle_ordonnee c)"

text \<open>
  What holds of the engine between two calls: the history has one entry for each question
  passed, the index stays within the list, and the counters add up.
\<close>

definition invariant_partie :: "MoteurQuiz \<Rightarrow> bool" where
  "invariant_partie m =
     (int (length (historique_reponses m)) = index_question_actuelle m
      \<and> 0 \<le> index_question_actuelle m
      \<and> index_question_actuelle m \<le> int (length (questions m))
      \<and> bonnes m + mauvaises m = index_question_actuelle m
      \<and> score m = bonnes m
      \<and> 0 \<le> bonnes m \<and> 0 \<le> mauvaises m)"

section \<open>Example data\<close>

definition question_exemple :: "int \<Rightarrow> string \<Rightarrow> int \<Rightarrow> Question" where
  "question_exemple i th bonne =
     \<lparr> id_question = i, theme = th, niveau = ''facile'', texte = ''Question'',
       options = [JStr ''a'', JStr ''b'', JStr ''c''], bonne_option = bonne \<rparr>"

definition partie_exemple :: MoteurQuiz where
  "partie_exemple =
     MoteurQuiz_init
       [question_exemple 1 ''Histoire'' 2, question_exemple 2 ''Histoire'' 0,
        question_exemple 3 ''Histoire'' 1] ''Ana'' 1000"

definition reponses_exemple :: "(int option \<times> bool \<times> rat) list" where
  "reponses_exemple = [(Some 2, False, 3), (Some 1, False, 5), (None, True, 20)]"

definition horloge_exemple :: Horloge where
  "horloge_exemple = \<lparr> temps_fin = 1042, temps_id = 1042, date_iso = ''2024-01-01T12:00:00+00:00'' \<rparr>"

definition partie_mixte :: MoteurQuiz where
  "partie_mixte =
     jouer (MoteurQuiz_init [question_exemple 1 ''Histoire'' 0, question_exemple 2 ''Geographie'' 0]
              ''Ana'' 1000)
       [(None, True, 20), (None, True, 20)]"


text \<open>
  A bank of three questions on two themes, a bank of eleven questions, and the generator
  whose every draw gives 0.
\<close>

definition banque_exemple :: BanqueQuestions where
  "banque_exemple =
     \<lparr> bq_questions = [question_exemple 1 ''Histoire'' 2, question_exemple 2 ''Geographie'' 0,
                       question_exemple 3 ''Histoire'' 1],
       dossier = ''questions'' \<rparr>"

definition banque_onze :: BanqueQuestions where
  "banque_onze =
     \<lparr> bq_questions = map (\<lambda>i. question_exemple (int i) ''Histoire'' 0) [0..<11],
       dossier = ''questions'' \<rparr>"

definition alea_zero :: alea where
  "alea_zero = (\<lambda>k. 0)"


text \<open>
  Entries of the score log as the program writes them, reduced to the keys that the store
  reads, and a store that holds two of them.
\<close>

definition entree_exemple :: "string \<Rightarrow> string \<Rightarrow> int \<Rightarrow> rat \<Rightarrow> string \<Rightarrow> json" where
  "entree_exemple nom th points pct moment =
     JDict [(''joueur_nom'', JStr nom), (''date_heure'', JStr moment), (''theme'', JStr th),
            (''score_total'', JInt points), (''pourcentage'', JFloat (Finite pct))]"

definition disque_exemple :: disque where
  "disque_exemple =
     \<lparr> fichier_scores =
         Contenu (JList [entree_exemple ''Ana'' ''Histoire'' 2 50 ''2024-01-01T12:00:00+00:00'',
                         entree_exemple ''Luc'' ''Histoire'' 3 75 ''2024-01-02T12:00:00+00:00'']),
       fichier_temp = Absent \<rparr>"


text \<open>
  A store of four entries: two for each of two scores, one of them on another theme, and
  for the lower score two entries that differ by their moment only.  The examples on the
  store sort regular keys and so use nothing of the interpreter; the one below raises on
  every other sort.
\<close>

definition journal_exemple :: "json list" where
  "journal_exemple =
     [entree_exemple ''Ana'' ''Histoire'' 2 50 ''2024-01-02T12:00:00+00:00'',
      entree_exemple ''Luc'' ''Histoire'' 3 75 ''2024-01-02T09:00:00+00:00'',
      entree_exemple ''Eve'' ''Geographie'' 3 75 ''2024-01-01T09:00:00+00:00'',
      entree_exemple ''Zoe'' ''Histoire'' 2 50 ''2024-01-01T12:00:00+00:00'']"

definition pas_de_literal :: "string \<Rightarrow> int option" where
  "pas_de_literal t = None"

definition sans_texte :: "json \<Rightarrow> string" where
  "sans_texte v = []"

definition tri_refuse :: "((json \<times> json \<times> json) \<times> json) list \<Rightarrow> py_error + json list" where
  "tri_refuse cles = Inl TypeError"

definition interpreteur_exemple :: Interpreteur where
  "interpreteur_exemple =
     \<lparr> int_de_str = pas_de_literal, repr_valeur = sans_texte, tri_quelconque = tri_refuse \<rparr>"


section \<open>Facts about the floating-point operations\<close>

lemma round_half_even_floor:
  "\<lfloor>z\<rfloor> \<le> round_half_even z \<and> round_half_even z \<le> \<lfloor>z\<rfloor> + 1"
  by (simp add: round_half_even_def Let_def)

lemma round_half_even_of_int [simp]: "round_half_even (of_int n) = n"
  by (simp add: round_half_even_def Let_def)

lemma round_half_even_le: "z \<le> of_int n \<Longrightarrow> round_half_even z \<le> n"
proof (cases "z = of_int n")
  case True
  then show ?thesis by simp
next
  case False
  assume "z \<le> of_int n"
  with False have "z < of_int n" by simp
  then have "\<lfloor>z\<rfloor> < n" by (simp add: floor_less_iff)
  with round_half_even_floor [of z] show ?thesis by linarith
qed

lemma round_half_even_ge: "of_int n \<le> z \<Longrightarrow> n \<le> round_half_even z"
proof -
  assume "of_int n \<le> z"
  then have "n \<le> \<lfloor>z\<rfloor>" by (simp add: le_floor_iff)
  with round_half_even_floor [of z] show ?thesis by linarith
qed

lemma exposant_bornes:
  assumes "x \<noteq> 0"
  shows "2 powi (exposant x) \<le> \<bar>x\<bar> \<and> \<bar>x\<bar> < 2 powi (exposant x + 1)"
proof -
  obtain a b where ab: "quotient_of \<bar>x\<bar> = (a, b)" by (cases "quotient_of \<bar>x\<bar>")
  have b: "0 < b" using ab by (rule quotient_of_denom_pos)
  have x: "\<bar>x\<bar> = of_int a / of_int b" using ab by (rule quotient_of_div)
  have "0 < \<bar>x\<bar>" using assms by simp
  with x b have a: "0 < a" by (simp add: zero_less_divide_iff)
  define la where "la = bitlen a"
  define lb where "lb = bitlen b"
  have la: "2 ^ nat (la - 1) \<le> a" "a < 2 ^ nat la" using bitlen_bounds [OF a] by (simp_all add: la_def)
  have lb: "2 ^ nat (lb - 1) \<le> b" "b < 2 ^ nat lb" using bitlen_bounds [OF b] by (simp_all add: lb_def)
  have la1: "1 \<le> la" using a by (simp add: la_def bitlen_alt_def)
  have lb1: "1 \<le> lb" using b by (simp add: lb_def bitlen_alt_def)
  have ra: "(2::rat) powi (la - 1) \<le> of_int a" "(of_int a :: rat) < 2 powi la"
  proof -
    have "(of_int (2 ^ nat (la - 1)) :: rat) \<le> of_int a" using la(1) by (simp only: of_int_le_iff)
    then show "(2::rat) powi (la - 1) \<le> of_int a" using la1 by (simp add: power_int_def)
    have "(of_int a :: rat) < of_int (2 ^ nat la)" using la(2) by (simp only: of_int_less_iff)
    then show "(of_int a :: rat) < 2 powi la" using la1 by (simp add: power_int_def)
  qed
  have rb: "(2::rat) powi (lb - 1) \<le> of_int b" "(of_int b :: rat) < 2 powi lb"
  proof -
    have "(of_int (2 ^ nat (lb - 1)) :: rat) \<le> of_int b" using lb(1) by (simp only: of_int_le_iff)
    then show "(2::rat) powi (lb - 1) \<le> of_int b" using lb1 by (simp add: power_int_def)
    have "(of_int b :: rat) < of_int (2 ^ nat lb)" using lb(2) by (simp only: of_int_less_iff)
    then show "(of_int b :: rat) < 2 powi lb" using lb1 by (simp add: power_int_def)
  qed
  have bpos: "(0::rat) < of_int b" using b by simp
  have apos: "(0::rat) < of_int a" using a by simp
  have haut: "\<bar>x\<bar> < 2 powi (la - lb + 1)"
  proof -
    have "of_int a / of_int b < (2::rat) powi la / of_int b"
      using ra(2) bpos by (simp add: divide_strict_right_mono)
    also have "\<dots> \<le> 2 powi la / 2 powi (lb - 1)"
    proof (rule divide_left_mono)
      show "(2::rat) powi (lb - 1) \<le> of_int b" by (rule rb(1))
      show "(0::rat) \<le> 2 powi la" by simp
      show "(0::rat) < of_int b * 2 powi (lb - 1)" using bpos by (intro mult_pos_pos) simp_all
    qed
    also have "\<dots> = 2 powi (la - (lb - 1))" by (simp add: power_int_diff)
    finally show ?thesis by (simp add: x algebra_simps)
  qed
  have bas: "2 powi (la - lb - 1) < \<bar>x\<bar>"
  proof -
    have "(2::rat) powi (la - lb - 1) = 2 powi (la - 1) / 2 powi lb"
      by (simp add: power_int_diff [symmetric] algebra_simps)
    also have "\<dots> \<le> of_int a / 2 powi lb"
      using ra(1) by (simp add: divide_right_mono)
    also have "\<dots> < of_int a / of_int b"
    proof (rule divide_strict_left_mono)
      show "(of_int b :: rat) < 2 powi lb" by (rule rb(2))
      show "(0::rat) < of_int a" by (rule apos)
      show "(0::rat) < 2 powi lb * of_int b" using bpos by (intro mult_pos_pos) simp_all
    qed
    finally show ?thesis by (simp add: x)
  qed
  show ?thesis
  proof (cases "2 powi (la - lb) \<le> \<bar>x\<bar>")
    case True
    then have "exposant x = la - lb" by (simp add: exposant_def ab la_def lb_def)
    with True haut show ?thesis by simp
  next
    case False
    then have "exposant x = la - lb - 1" by (simp add: exposant_def ab la_def lb_def)
    with False bas show ?thesis by simp
  qed
qed

lemma powi2_less_imp: "(2::rat) powi m < 2 powi n \<Longrightarrow> m < n"
proof (rule ccontr)
  assume a: "(2::rat) powi m < 2 powi n" and "\<not> m < n"
  then have "n \<le> m" by simp
  then have "(2::rat) powi n \<le> 2 powi m" by (intro power_int_increasing) simp_all
  with a show False by simp
qed

lemma exposant_unique:
  assumes "2 powi e \<le> \<bar>x\<bar>" and "\<bar>x\<bar> < 2 powi (e + 1)"
  shows "exposant x = e"
proof -
  have "(0::rat) < 2 powi e" by simp
  with assms(1) have "0 < \<bar>x\<bar>" by linarith
  then have nz: "x \<noteq> 0" by simp
  note b = exposant_bornes [OF nz]
  have "(2::rat) powi e < 2 powi (exposant x + 1)" using assms(1) b by linarith
  then have 1: "e < exposant x + 1" by (rule powi2_less_imp)
  have "(2::rat) powi (exposant x) < 2 powi (e + 1)" using assms(2) b by linarith
  then have 2: "exposant x < e + 1" by (rule powi2_less_imp)
  from 1 2 show ?thesis by linarith
qed

text \<open>Rounding a number whose binary exponent is known and in the normal range.\<close>

lemma fl_normal:
  assumes "2 powi e \<le> \<bar>x\<bar>" and "\<bar>x\<bar> < 2 powi (e + 1)" and "- 1022 \<le> e" and "e \<le> 1022"
  shows "fl x = Finite (of_int (round_half_even (x / 2 powi (e - 52))) * 2 powi (e - 52))"
proof -
  have ex: "exposant x = e" using assms(1,2) by (rule exposant_unique)
  have "(0::rat) < 2 powi e" by simp
  with assms(1) have "0 < \<bar>x\<bar>" by linarith
  then have nz: "x \<noteq> 0" by simp
  define q :: rat where "q = 2 powi (e - 52)"
  have qpos: "0 < q" by (simp add: q_def)
  define n where "n = round_half_even (x / q)"
  have borne: "\<bar>x / q\<bar> \<le> of_int (2 ^ 53)"
  proof -
    have "\<bar>x / q\<bar> = \<bar>x\<bar> / q" using qpos by simp
    also have "\<dots> \<le> 2 powi (e + 1) / q" using assms(2) qpos by (simp add: divide_right_mono)
    also have "\<dots> = 2 powi ((e + 1) - (e - 52))" unfolding q_def by (rule power_int_diff [symmetric]) simp
    also have "(e + 1) - (e - 52) = 53" by simp
    also have "(2::rat) powi 53 = of_int (2 ^ 53)" by simp
    finally show ?thesis .
  qed
  have "n \<le> 2 ^ 53" unfolding n_def using borne by (intro round_half_even_le) linarith
  moreover have "- (2 ^ 53) \<le> n"
  proof -
    have "(of_int (- (2 ^ 53)) :: rat) = - of_int (2 ^ 53)" by simp
    with borne have "(of_int (- (2 ^ 53)) :: rat) \<le> x / q" by linarith
    then show ?thesis unfolding n_def by (rule round_half_even_ge)
  qed
  ultimately have "\<bar>n\<bar> \<le> 2 ^ 53" by simp
  then have "\<bar>(of_int n :: rat)\<bar> \<le> of_int (2 ^ 53)" by (simp only: of_int_abs [symmetric] of_int_le_iff)
  then have "\<bar>of_int n * q\<bar> \<le> of_int (2 ^ 53) * q"
    using qpos by (simp add: abs_mult mult_right_mono)
  also have "\<dots> = 2 powi (e + 1)"
  proof -
    have "e + 1 = 53 + (e - 52)" by simp
    then have "(2::rat) powi (e + 1) = 2 powi (53 + (e - 52))" by (simp only:)
    also have "\<dots> = 2 powi 53 * 2 powi (e - 52)" by (rule power_int_add) simp
    also have "(2::rat) powi 53 = of_int (2 ^ 53)" by simp
    finally show ?thesis by (simp only: q_def)
  qed
  also have "\<dots> < 2 powi 1024" using assms(4) by (intro power_int_strict_increasing) simp_all
  finally have petit: "\<not> 2 powi 1024 \<le> \<bar>of_int n * q\<bar>" by simp
  have "max e (- 1022) = e" using assms(3) by simp
  then show ?thesis
    using petit nz by (simp add: fl_def ex Let_def q_def n_def)
qed

lemma round_half_even_fraction:
  assumes "0 < b"
  shows "round_half_even (of_int a / of_int b) =
           (if 2 * (a mod b) < b then a div b
            else if b < 2 * (a mod b) then a div b + 1
            else if even (a div b) then a div b else a div b + 1)"
proof -
  have f: "\<lfloor>(of_int a / of_int b :: rat)\<rfloor> = a div b" by (rule floor_divide_of_int_eq)
  have bpos: "(0::rat) < of_int b" using assms by simp
  have "(of_int a :: rat) = of_int (b * (a div b) + a mod b)" by simp
  also have "\<dots> = of_int b * of_int (a div b) + of_int (a mod b)" by (simp only: of_int_add of_int_mult)
  finally have d: "(of_int a / of_int b :: rat) - of_int (a div b) = of_int (a mod b) / of_int b"
    using bpos by (simp add: field_simps)
  have 1: "(of_int (a mod b) / of_int b < (1::rat) / 2) = (2 * (a mod b) < b)"
  proof -
    have "(of_int (a mod b) / of_int b < (1::rat) / 2) = ((of_int (2 * (a mod b)) :: rat) < of_int b)"
      using bpos by (simp add: field_simps)
    then show ?thesis by (simp only: of_int_less_iff)
  qed
  have 2: "((1::rat) / 2 < of_int (a mod b) / of_int b) = (b < 2 * (a mod b))"
  proof -
    have "((1::rat) / 2 < of_int (a mod b) / of_int b) = ((of_int b :: rat) < of_int (2 * (a mod b)))"
      using bpos by (simp add: field_simps)
    then show ?thesis by (simp only: of_int_less_iff)
  qed
  show ?thesis
    unfolding round_half_even_def Let_def f d 1 2 by simp
qed

lemma round_half_even_numeral:
  "round_half_even (numeral a / numeral b) =
           (if 2 * (numeral a mod numeral b) < (numeral b :: int) then numeral a div numeral b
            else if (numeral b :: int) < 2 * (numeral a mod numeral b) then numeral a div numeral b + 1
            else if even (numeral a div numeral b :: int) then numeral a div numeral b
            else numeral a div numeral b + 1)"
  using round_half_even_fraction [of "numeral b" "numeral a"] by simp

lemma round_half_even_numeral_entier: "round_half_even (numeral a) = numeral a"
  using round_half_even_of_int [of "numeral a"] by simp

lemma fl_un_tiers: "fl (1 / 3) = Finite (6004799503160661 / 18014398509481984)"
  using fl_normal [of "-2" "1/3"] by (simp add: round_half_even_numeral)

lemma fl_333: "fl (333 / 10) = Finite (2343279181116211 / 70368744177664)"
  using fl_normal [of "5" "333/10"] by (simp add: round_half_even_numeral)

lemma fl_42: "fl 42 = Finite 42"
  using fl_normal [of "5" "42"] by (simp add: round_half_even_numeral round_half_even_numeral_entier)

lemma fl_pct: "fl (6004799503160661 / 18014398509481984 * 100) = Finite (2345624805922133 / 70368744177664)"
  using fl_normal [of "5" "6004799503160661 / 18014398509481984 * 100"]
  by (simp add: round_half_even_numeral)

section \<open>Scoring of one answer\<close>

lemma juger_iff:
  "juger q a t = (\<not> t \<and> a = Some (bonne_option q))"
  by (cases a) (auto simp: juger_def est_reponse_correcte_def)

text \<open>
  Claim C1.  In a state with a current question \<open>q\<close>, \<open>enregistrer_reponse\<close> records the answer
  as correct exactly when the time has not run out, an index is given and it is the index of
  the good option.  A correct answer adds one to \<open>bonnes\<close> and to \<open>score\<close> and nothing to the
  other counters; a timeout adds one to \<open>mauvaises\<close> and to \<open>temps_ecoules\<close>; any other wrong
  answer adds one to \<open>mauvaises\<close> only.
\<close>

theorem enregistrer_reponse_scoring:
  "obtenir_question_actuelle m = Some q \<Longrightarrow>
   historique_reponses (enregistrer_reponse m a t r) = historique_reponses m @
       [\<lparr> numero = index_question_actuelle m + 1, question = q, reponse_choisie = a,
          est_correcte = (\<not> t \<and> a = Some (bonne_option q)),
          temps_ecoule = t, temps_reponse = r \<rparr>]
   \<and> bonnes (enregistrer_reponse m a t r)
       = bonnes m + (if \<not> t \<and> a = Some (bonne_option q) then 1 else 0)
   \<and> score (enregistrer_reponse m a t r)
       = score m + (if \<not> t \<and> a = Some (bonne_option q) then 1 else 0)
   \<and> mauvaises (enregistrer_reponse m a t r)
       = mauvaises m + (if \<not> t \<and> a = Some (bonne_option q) then 0 else 1)
   \<and> temps_ecoules (enregistrer_reponse m a t r)
       = temps_ecoules m + (if t then 1 else 0)
   \<and> index_question_actuelle (enregistrer_reponse m a t r) = index_question_actuelle m + 1"
  by (auto simp: enregistrer_reponse_def juger_iff obtenir_numero_question_def Let_def)

theorem enregistrer_reponse_scoring_witness:
  "obtenir_question_actuelle partie_exemple = Some (question_exemple 1 ''Histoire'' 2)
   \<and> bonnes (enregistrer_reponse partie_exemple (Some 2) False 3) = 1
   \<and> score (enregistrer_reponse partie_exemple (Some 2) False 3) = 1
   \<and> mauvaises (enregistrer_reponse partie_exemple (Some 2) False 3) = 0
   \<and> mauvaises (enregistrer_reponse partie_exemple None True 20) = 1
   \<and> temps_ecoules (enregistrer_reponse partie_exemple None True 20) = 1
   \<and> mauvaises (enregistrer_reponse partie_exemple (Some 0) False 3) = 1
   \<and> temps_ecoules (enregistrer_reponse partie_exemple (Some 0) False 3) = 0"
proof -
  have h: "obtenir_question_actuelle partie_exemple = Some (question_exemple 1 ''Histoire'' 2)"
    by (simp add: obtenir_question_actuelle_def partie_exemple_def MoteurQuiz_init_def)
  have z: "bonnes partie_exemple = 0" "score partie_exemple = 0" "mauvaises partie_exemple = 0"
    "temps_ecoules partie_exemple = 0" "bonne_option (question_exemple 1 ''Histoire'' 2) = 2"
    by (simp_all add: partie_exemple_def MoteurQuiz_init_def question_exemple_def)
  show ?thesis
    using h enregistrer_reponse_scoring [OF h, of "Some 2" False 3]
      enregistrer_reponse_scoring [OF h, of None True 20]
      enregistrer_reponse_scoring [OF h, of "Some 0" False 3]
    by (simp add: z)
qed

text \<open>
  Claim C4.  In a completed session (\<open>est_termine\<close>: the index has reached the number of
  questions) a further call of \<open>enregistrer_reponse\<close> returns the state as it was: score,
  counters, history and index are all unchanged.
\<close>

theorem enregistrer_reponse_termine:
  "est_termine m \<Longrightarrow> enregistrer_reponse m a t r = m"
  by (simp add: enregistrer_reponse_def obtenir_question_actuelle_def est_termine_def)


section \<open>The session as a whole\<close>

lemma invariant_init: "invariant_partie (MoteurQuiz_init qs nom t0)"
  by (simp add: invariant_partie_def MoteurQuiz_init_def)

lemma questions_enregistrer [simp]:
  "questions (enregistrer_reponse m a t r) = questions m"
  by (auto simp: enregistrer_reponse_def Let_def split: option.splits)

lemma invariant_enregistrer:
  "invariant_partie m \<Longrightarrow> invariant_partie (enregistrer_reponse m a t r)"
  by (auto simp: invariant_partie_def enregistrer_reponse_def obtenir_question_actuelle_def
      Let_def split: option.splits if_splits)

lemma questions_jouer [simp]: "questions (jouer m rs) = questions m"
  by (induction m rs rule: jouer.induct) simp_all

lemma invariant_jouer: "invariant_partie m \<Longrightarrow> invariant_partie (jouer m rs)"
  by (induction m rs rule: jouer.induct) (simp_all add: invariant_enregistrer)

lemma index_enregistrer:
  "index_question_actuelle (enregistrer_reponse m a t r) =
     (if 0 \<le> index_question_actuelle m \<and> index_question_actuelle m < int (length (questions m))
      then index_question_actuelle m + 1 else index_question_actuelle m)"
  by (auto simp: enregistrer_reponse_def obtenir_question_actuelle_def Let_def)

lemma index_jouer:
  "0 \<le> index_question_actuelle m \<Longrightarrow> index_question_actuelle m \<le> int (length (questions m)) \<Longrightarrow>
   index_question_actuelle (jouer m rs) =
     min (index_question_actuelle m + int (length rs)) (int (length (questions m)))"
proof (induction m rs rule: jouer.induct)
  case (1 m)
  then show ?case by simp
next
  case (2 m a t r reste)
  then show ?case by (auto simp: index_enregistrer)
qed

lemma valeur_commune_homogene:
  assumes "qs \<noteq> []" and "\<forall>q \<in> set qs. champ q = v"
  shows "valeur_commune champ qs = Inr v"
proof -
  obtain q reste where qs: "qs = q # reste" using assms(1) by (cases qs) auto
  have "set (map champ qs) = {v}" using assms qs by auto
  then have "card (set (map champ qs)) = 1" by simp
  moreover have "champ q = v" using assms(2) qs by simp
  ultimately show ?thesis unfolding valeur_commune_def qs by simp
qed

lemma valeur_commune_mixte:
  assumes "q1 \<in> set qs" and "q2 \<in> set qs" and "champ q1 \<noteq> champ q2"
  shows "valeur_commune champ qs = Inr ''mix''"
proof -
  have "card (set (map champ qs)) \<noteq> 1"
  proof
    assume "card (set (map champ qs)) = 1"
    then obtain v where v: "set (map champ qs) = {v}" by (auto simp: card_1_singleton_iff)
    have "champ q1 \<in> set (map champ qs)" "champ q2 \<in> set (map champ qs)"
      using assms(1,2) by simp_all
    with v assms(3) show False by simp
  qed
  then show ?thesis by (simp add: valeur_commune_def)
qed

lemma fl_borne:
  assumes "\<bar>x\<bar> \<le> 2 powi k" and "- 1022 \<le> k" and "k \<le> 1023"
  shows "\<exists>y. fl x = Finite y \<and> \<bar>y\<bar> \<le> 2 powi k \<and> (0 \<le> x \<longrightarrow> 0 \<le> y)"
proof (cases "x = 0")
  case True
  then show ?thesis by (simp add: fl_def)
next
  case False
  note b = exposant_bornes [OF False]
  have "(2::rat) powi (exposant x) < 2 powi (k + 1)"
  proof -
    have "(2::rat) powi k < 2 powi (k + 1)" by (intro power_int_strict_increasing) simp_all
    with b assms(1) show ?thesis by linarith
  qed
  then have ek: "exposant x \<le> k" using powi2_less_imp by fastforce
  define e where "e = max (exposant x) (- 1022)"
  have e_le: "e \<le> k" using ek assms(2) by (simp add: e_def)
  define q :: rat where "q = 2 powi (e - 52)"
  have qpos: "0 < q" by (simp add: q_def)
  define N :: int where "N = 2 ^ nat (k - e + 52)"
  have Nq: "of_int N * q = 2 powi k"
  proof -
    have "(of_int N :: rat) = 2 powi (k - e + 52)" using e_le by (simp add: N_def power_int_def)
    then have "of_int N * q = 2 powi (k - e + 52) * 2 powi (e - 52)" by (simp only: q_def)
    also have "\<dots> = 2 powi ((k - e + 52) + (e - 52))" by (rule power_int_add [symmetric]) simp
    also have "(k - e + 52) + (e - 52) = k" by simp
    finally show ?thesis .
  qed
  define n where "n = round_half_even (x / q)"
  have borne: "\<bar>x / q\<bar> \<le> of_int N"
  proof -
    have "\<bar>x / q\<bar> = \<bar>x\<bar> / q" using qpos by simp
    also have "\<dots> \<le> 2 powi k / q" using assms(1) qpos by (simp add: divide_right_mono)
    also have "\<dots> = of_int N" using Nq qpos by (simp add: field_simps)
    finally show ?thesis .
  qed
  have "n \<le> N" unfolding n_def using borne by (intro round_half_even_le) linarith
  moreover have "- N \<le> n"
  proof -
    have "(of_int (- N) :: rat) = - of_int N" by simp
    with borne have "(of_int (- N) :: rat) \<le> x / q" by linarith
    then show ?thesis unfolding n_def by (rule round_half_even_ge)
  qed
  ultimately have "\<bar>n\<bar> \<le> N" by simp
  then have "\<bar>(of_int n :: rat)\<bar> \<le> of_int N" by (simp only: of_int_abs [symmetric] of_int_le_iff)
  then have "\<bar>of_int n * q\<bar> \<le> of_int N * q"
    using qpos by (simp add: abs_mult mult_right_mono)
  then have yk: "\<bar>of_int n * q\<bar> \<le> 2 powi k" by (simp only: Nq)
  have "(2::rat) powi k < 2 powi 1024" using assms(3) by (intro power_int_strict_increasing) simp_all
  with yk have petit: "\<not> 2 powi 1024 \<le> \<bar>of_int n * q\<bar>" by linarith
  have pos: "0 \<le> x \<longrightarrow> 0 \<le> of_int n * q"
  proof
    assume "0 \<le> x"
    then have "(of_int 0 :: rat) \<le> x / q" using qpos by simp
    then have "0 \<le> n" unfolding n_def by (rule round_half_even_ge)
    then show "0 \<le> of_int n * q" using qpos by simp
  qed
  have "fl x = Finite (of_int n * q)"
    using petit False by (simp add: fl_def Let_def q_def n_def e_def)
  with yk pos show ?thesis by simp
qed

lemma valeur_commune_total: "\<exists>v. valeur_commune champ qs = Inr v"
proof (cases qs)
  case Nil
  then show ?thesis by (simp add: valeur_commune_def)
next
  case (Cons q reste)
  then show ?thesis by (simp add: valeur_commune_def)
qed

lemma calculer_pourcentage_total:
  assumes "0 \<le> b" and "b \<le> n"
  shows "\<exists>p. calculer_pourcentage b n = Inr (Finite p) \<and> 0 \<le> p"
proof (cases "0 < n")
  case False
  then show ?thesis by (simp add: calculer_pourcentage_def)
next
  case True
  have "\<bar>of_int b / of_int n :: rat\<bar> \<le> 2 powi 0" using assms True by simp
  from fl_borne [OF this] obtain x where
    x: "fl (of_int b / of_int n) = Finite x" "\<bar>x\<bar> \<le> 1" "0 \<le> x"
    using assms True by auto
  have "\<bar>x * 100\<bar> \<le> 2 powi 7" using x(2) by simp
  from fl_borne [OF this] obtain y where
    y: "fl (x * 100) = Finite y" "\<bar>y\<bar> \<le> 128" "0 \<le> y"
    using x(3) by auto
  define d where "d = round_half_even (y * 10)"
  have "d \<le> 1280" unfolding d_def using y(2) by (intro round_half_even_le) simp
  moreover have "0 \<le> d" unfolding d_def using y(3) by (intro round_half_even_ge) simp
  ultimately have "\<bar>of_int d / 10 :: rat\<bar> \<le> 2 powi 7" by simp
  from fl_borne [OF this] obtain p where
    p: "fl (of_int d / 10) = Finite p" "0 \<le> p"
    using \<open>0 \<le> d\<close> by auto
  show ?thesis
    using True x(1) y(1) p by (simp add: calculer_pourcentage_def int_truediv_def py_round1_def d_def)
qed


lemma fl_zero [simp]: "fl 0 = Finite 0"
  by (simp add: fl_def)

lemma round_half_even_zero [simp]: "round_half_even 0 = 0"
  using round_half_even_of_int [of 0] by simp

lemma py_int_float_total:
  assumes "\<bar>x\<bar> \<le> 2 powi 1023"
  shows "\<exists>d. py_int_float (fl x) = Inr d"
proof -
  from fl_borne [OF assms] obtain y where "fl x = Finite y" by auto
  then show ?thesis by (simp add: py_int_float_def)
qed

lemma obtenir_resultats_total:
  assumes "\<bar>temps_fin h - horodatage_debut m\<bar> \<le> 2 powi 1023"
    and "0 \<le> bonnes m" and "bonnes m \<le> int (length (questions m))"
  shows "\<exists>duree p th nv.
           py_int_float (fl (temps_fin h - horodatage_debut m)) = Inr duree
         \<and> calculer_pourcentage (bonnes m) (int (length (questions m))) = Inr (Finite p)
         \<and> valeur_commune theme (questions m) = Inr th
         \<and> valeur_commune niveau (questions m) = Inr nv
         \<and> fst (obtenir_resultats h m) =
             Inr \<lparr> id_partie = nom_joueur m @ ''_'' @ str_int (tronquer (temps_id h)),
                   joueur_nom = nom_joueur m, date_heure = date_iso h, theme_r = th,
                   niveau_r = nv, nombre_questions = int (length (questions m)),
                   bonnes_r = bonnes m, mauvaises_r = mauvaises m,
                   temps_ecoules_r = temps_ecoules m, score_total = score m,
                   pourcentage = Finite p, duree_seconds = duree \<rparr>"
proof -
  from py_int_float_total [OF assms(1)] obtain duree where
    d: "py_int_float (fl (temps_fin h - horodatage_debut m)) = Inr duree" by auto
  from calculer_pourcentage_total [OF assms(2,3)] obtain p where
    p: "calculer_pourcentage (bonnes m) (int (length (questions m))) = Inr (Finite p)" by auto
  from valeur_commune_total obtain th where th: "valeur_commune theme (questions m) = Inr th"
    by blast
  from valeur_commune_total obtain nv where nv: "valeur_commune niveau (questions m) = Inr nv"
    by blast
  show ?thesis using d p th nv by (simp add: obtenir_resultats_def Let_def)
qed

lemma horodatage_enregistrer [simp]:
  "horodatage_debut (enregistrer_reponse m a t r) = horodatage_debut m"
  by (auto simp: enregistrer_reponse_def Let_def split: option.splits)

lemma horodatage_jouer [simp]: "horodatage_debut (jouer m rs) = horodatage_debut m"
  by (induction m rs rule: jouer.induct) simp_all

lemma partie_jouee:
  "invariant_partie (jouer (MoteurQuiz_init qs nom t0) rs)"
  "questions (jouer (MoteurQuiz_init qs nom t0) rs) = qs"
  "horodatage_debut (jouer (MoteurQuiz_init qs nom t0) rs) = t0"
  by (simp_all add: invariant_jouer invariant_init) (simp_all add: MoteurQuiz_init_def)

lemma jouer_exemple:
  "jouer partie_exemple reponses_exemple =
     partie_exemple\<lparr> index_question_actuelle := 3, score := 1, bonnes := 1, mauvaises := 2,
       temps_ecoules := 1,
       historique_reponses :=
         [\<lparr> numero = 1, question = question_exemple 1 ''Histoire'' 2, reponse_choisie = Some 2,
             est_correcte = True, temps_ecoule = False, temps_reponse = 3 \<rparr>,
          \<lparr> numero = 2, question = question_exemple 2 ''Histoire'' 0, reponse_choisie = Some 1,
             est_correcte = False, temps_ecoule = False, temps_reponse = 5 \<rparr>,
          \<lparr> numero = 3, question = question_exemple 3 ''Histoire'' 1, reponse_choisie = None,
             est_correcte = False, temps_ecoule = True, temps_reponse = 20 \<rparr>] \<rparr>"
  by (simp add: partie_exemple_def reponses_exemple_def MoteurQuiz_init_def enregistrer_reponse_def
      obtenir_question_actuelle_def obtenir_numero_question_def juger_def est_reponse_correcte_def
      question_exemple_def Let_def)

text \<open>
  The session of the example, once its three answers are given, is complete with a score of 1
  and a history of three records; a further call leaves it as it is.
\<close>

theorem enregistrer_reponse_termine_witness:
  "est_termine (jouer partie_exemple reponses_exemple)
   \<and> index_question_actuelle (jouer partie_exemple reponses_exemple) = 3
   \<and> score (jouer partie_exemple reponses_exemple) = 1
   \<and> mauvaises (jouer partie_exemple reponses_exemple) = 2
   \<and> length (historique_reponses (jouer partie_exemple reponses_exemple)) = 3
   \<and> enregistrer_reponse (jouer partie_exemple reponses_exemple) (Some 1) False 2
       = jouer partie_exemple reponses_exemple"
proof -
  have h: "est_termine (jouer partie_exemple reponses_exemple)"
    by (simp add: est_termine_def jouer_exemple) (simp add: partie_exemple_def MoteurQuiz_init_def)
  have e: "index_question_actuelle (jouer partie_exemple reponses_exemple) = 3
     \<and> score (jouer partie_exemple reponses_exemple) = 1
     \<and> mauvaises (jouer partie_exemple reponses_exemple) = 2
     \<and> length (historique_reponses (jouer partie_exemple reponses_exemple)) = 3"
    by (simp add: jouer_exemple)
  show ?thesis
    using h e enregistrer_reponse_termine [OF h, of "Some 1" False 2] by simp
qed

lemma pourcentage_un_sur_trois: "calculer_pourcentage 1 3 = Inr (fl (333 / 10))"
proof -
  have "py_round1 (fl (6004799503160661 / 18014398509481984 * 100)) = fl (333 / 10)"
    unfolding fl_pct py_round1_def by (simp add: round_half_even_numeral)
  then show ?thesis
    using fl_un_tiers by (simp add: calculer_pourcentage_def int_truediv_def)
qed

lemma resultats_exemple:
  "map_sum id (\<lambda>r. (bonnes_r r, mauvaises_r r, temps_ecoules_r r, score_total r, pourcentage r))
     (fst (obtenir_resultats horloge_exemple (jouer partie_exemple reponses_exemple)))
   = Inr (1, 2, 1, 1, fl (333 / 10))"
proof -
  have th: "valeur_commune theme (questions partie_exemple) = Inr ''Histoire''"
    by (rule valeur_commune_homogene)
      (simp_all add: partie_exemple_def MoteurQuiz_init_def question_exemple_def)
  have nv: "valeur_commune niveau (questions partie_exemple) = Inr ''facile''"
    by (rule valeur_commune_homogene)
      (simp_all add: partie_exemple_def MoteurQuiz_init_def question_exemple_def)
  have q: "length (questions partie_exemple) = 3" "horodatage_debut partie_exemple = 1000"
    by (simp_all add: partie_exemple_def MoteurQuiz_init_def)
  show ?thesis
    unfolding jouer_exemple
    by (simp add: obtenir_resultats_def Let_def th nv q horloge_exemple_def fl_42
        py_int_float_def pourcentage_un_sur_trois)
qed


text \<open>
  Claim C2.  A session is the engine after \<open>__init__\<close> and any number of calls of
  \<open>enregistrer_reponse\<close>.  After each call the history has as many entries as the index
  says; one call for each question completes the session; and in a completed session the
  correct and incorrect counts add up to the number of questions and the score is the
  correct count.  For three questions answered correct, wrong, timed out, the results are
  correct 1, incorrect 2, timed out 1, score 1 and the percentage is the float \<open>33.3\<close>.
\<close>

theorem session_complete:
  "int (length (historique_reponses (jouer (MoteurQuiz_init qs nom t0) rs)))
     = index_question_actuelle (jouer (MoteurQuiz_init qs nom t0) rs)
   \<and> (length rs = length qs \<longrightarrow> est_termine (jouer (MoteurQuiz_init qs nom t0) rs))
   \<and> (est_termine (jouer (MoteurQuiz_init qs nom t0) rs) \<longrightarrow>
        bonnes (jouer (MoteurQuiz_init qs nom t0) rs) + mauvaises (jouer (MoteurQuiz_init qs nom t0) rs)
          = int (length qs)
      \<and> score (jouer (MoteurQuiz_init qs nom t0) rs) = bonnes (jouer (MoteurQuiz_init qs nom t0) rs))
   \<and> map_sum id (\<lambda>r. (bonnes_r r, mauvaises_r r, temps_ecoules_r r, score_total r, pourcentage r))
        (fst (obtenir_resultats horloge_exemple (jouer partie_exemple reponses_exemple)))
      = Inr (1, 2, 1, 1, fl (333 / 10))"
proof -
  define m where "m = jouer (MoteurQuiz_init qs nom t0) rs"
  have inv: "invariant_partie m" and q: "questions m = qs"
    unfolding m_def by (rule partie_jouee)+
  have idx: "index_question_actuelle m = min (int (length rs)) (int (length qs))"
    unfolding m_def using index_jouer [of "MoteurQuiz_init qs nom t0" rs]
    by (simp add: MoteurQuiz_init_def)
  have 1: "int (length (historique_reponses m)) = index_question_actuelle m"
    using inv by (simp add: invariant_partie_def)
  have 2: "length rs = length qs \<longrightarrow> est_termine m"
    using idx q by (simp add: est_termine_def)
  have 3: "est_termine m \<longrightarrow> bonnes m + mauvaises m = int (length qs) \<and> score m = bonnes m"
    using inv q by (auto simp: invariant_partie_def est_termine_def)
  show ?thesis
    using 1 2 3 resultats_exemple unfolding m_def by blast
qed

theorem session_complete_witness:
  "length reponses_exemple = length (questions partie_exemple)
   \<and> est_termine (jouer partie_exemple reponses_exemple)
   \<and> bonnes (jouer partie_exemple reponses_exemple) + mauvaises (jouer partie_exemple reponses_exemple) = 3
   \<and> score (jouer partie_exemple reponses_exemple) = bonnes (jouer partie_exemple reponses_exemple)
   \<and> length (historique_reponses (jouer partie_exemple reponses_exemple)) = 3"
proof -
  have l: "length reponses_exemple =
      length [question_exemple 1 ''Histoire'' 2, question_exemple 2 ''Histoire'' 0,
              question_exemple 3 ''Histoire'' 1]"
    by (simp add: reponses_exemple_def)
  have q: "questions partie_exemple =
      [question_exemple 1 ''Histoire'' 2, question_exemple 2 ''Histoire'' 0,
       question_exemple 3 ''Histoire'' 1]"
    by (simp add: partie_exemple_def MoteurQuiz_init_def)
  have i: "index_question_actuelle (jouer partie_exemple reponses_exemple) = 3"
    by (simp add: jouer_exemple)
  show ?thesis
    using l q i
      session_complete [of "[question_exemple 1 ''Histoire'' 2, question_exemple 2 ''Histoire'' 0,
        question_exemple 3 ''Histoire'' 1]" "''Ana''" 1000 reponses_exemple]
    by (simp add: partie_exemple_def)
qed

text \<open>
  Claim C3.  For every session, with a clock that stays in the range of the floats,
  \<open>obtenir_resultats\<close> returns results (it does not raise), and their percentage is
  \<open>round(bonnes / total * 100, 1)\<close> in float arithmetic when there is a question, and \<open>0.0\<close> when
  there is none.
\<close>

theorem obtenir_resultats_pourcentage:
  assumes "\<bar>temps_fin h - t0\<bar> \<le> 2 powi 1023"
  shows "\<exists>r. fst (obtenir_resultats h (jouer (MoteurQuiz_init qs nom t0) rs)) = Inr r
           \<and> (if 0 < length qs
               then \<exists>x. fl (of_int (bonnes (jouer (MoteurQuiz_init qs nom t0) rs))
                            / of_int (int (length qs))) = Finite x
                        \<and> pourcentage r = py_round1 (fl (x * 100))
               else pourcentage r = Finite 0)"
proof -
  define m where "m = jouer (MoteurQuiz_init qs nom t0) rs"
  have inv: "invariant_partie m" and q: "questions m = qs" and t: "horodatage_debut m = t0"
    unfolding m_def by (rule partie_jouee)+
  have b: "0 \<le> bonnes m" "bonnes m \<le> int (length (questions m))"
    using inv by (auto simp: invariant_partie_def)
  have c: "\<bar>temps_fin h - horodatage_debut m\<bar> \<le> 2 powi 1023" using assms t by simp
  from obtenir_resultats_total [OF c b] obtain r p where
    r: "fst (obtenir_resultats h m) = Inr r" "pourcentage r = Finite p"
    and p: "calculer_pourcentage (bonnes m) (int (length (questions m))) = Inr (Finite p)"
    by force
  have "if 0 < length qs
        then \<exists>x. fl (of_int (bonnes m) / of_int (int (length qs))) = Finite x
                 \<and> pourcentage r = py_round1 (fl (x * 100))
        else pourcentage r = Finite 0"
  proof (cases "0 < length qs")
    case True
    then show ?thesis
      using p r(2) unfolding q
      by (auto simp: calculer_pourcentage_def int_truediv_def split: pyfloat.splits sum.splits)
  next
    case False
    then show ?thesis using p r(2) unfolding q by (simp add: calculer_pourcentage_def)
  qed
  with r(1) show ?thesis unfolding m_def by blast
qed


theorem obtenir_resultats_pourcentage_witness:
  "\<bar>temps_fin horloge_exemple - 1000\<bar> \<le> 2 powi 1023
   \<and> map_sum id pourcentage
        (fst (obtenir_resultats horloge_exemple (jouer partie_exemple reponses_exemple)))
      = Inr (py_round1 (fl (6004799503160661 / 18014398509481984 * 100)))
   \<and> fl (of_int (bonnes (jouer partie_exemple reponses_exemple)) / of_int (int 3))
      = Finite (6004799503160661 / 18014398509481984)"
proof -
  have h: "\<bar>temps_fin horloge_exemple - 1000\<bar> \<le> 2 powi 1023"
    by (simp add: horloge_exemple_def)
  have b: "bonnes (jouer partie_exemple reponses_exemple) = 1" by (simp add: jouer_exemple)
  have f: "fl (of_int (bonnes (jouer partie_exemple reponses_exemple)) / of_int (int 3))
      = Finite (6004799503160661 / 18014398509481984)"
    using fl_un_tiers by (simp add: b)
  from obtenir_resultats_pourcentage [OF h, of "[question_exemple 1 ''Histoire'' 2,
        question_exemple 2 ''Histoire'' 0, question_exemple 3 ''Histoire'' 1]" "''Ana''"
        reponses_exemple]
  obtain r x where
    r: "fst (obtenir_resultats horloge_exemple (jouer partie_exemple reponses_exemple)) = Inr r"
    and x: "fl (of_int (bonnes (jouer partie_exemple reponses_exemple)) / of_int (int 3)) = Finite x"
    and p: "pourcentage r = py_round1 (fl (x * 100))"
    unfolding partie_exemple_def [symmetric] by auto
  from x f have "x = 6004799503160661 / 18014398509481984" by (simp only: pyfloat.inject)
  with p have "pourcentage r = py_round1 (fl (6004799503160661 / 18014398509481984 * 100))"
    by (simp only:)
  with r h f show ?thesis by (simp only: map_sum.simps id_apply simp_thms)
qed

text \<open>
  Claim C8, amended.  For every session on a non-empty list of questions, the theme of the
  results is the common theme when all questions have the same one, and the text \<open>mix\<close> when
  two questions differ in their theme; likewise for the level.
\<close>

theorem obtenir_resultats_theme_niveau:
  assumes "\<bar>temps_fin h - t0\<bar> \<le> 2 powi 1023" and "qs \<noteq> []"
  shows "\<exists>r. fst (obtenir_resultats h (jouer (MoteurQuiz_init qs nom t0) rs)) = Inr r
           \<and> ((\<forall>q \<in> set qs. theme q = v) \<longrightarrow> theme_r r = v)
           \<and> ((\<exists>q1 \<in> set qs. \<exists>q2 \<in> set qs. theme q1 \<noteq> theme q2) \<longrightarrow> theme_r r = ''mix'')
           \<and> ((\<forall>q \<in> set qs. niveau q = w) \<longrightarrow> niveau_r r = w)
           \<and> ((\<exists>q1 \<in> set qs. \<exists>q2 \<in> set qs. niveau q1 \<noteq> niveau q2) \<longrightarrow> niveau_r r = ''mix'')"
proof -
  define m where "m = jouer (MoteurQuiz_init qs nom t0) rs"
  have inv: "invariant_partie m" and q: "questions m = qs" and t: "horodatage_debut m = t0"
    unfolding m_def by (rule partie_jouee)+
  have b: "0 \<le> bonnes m" "bonnes m \<le> int (length (questions m))"
    using inv by (auto simp: invariant_partie_def)
  have c: "\<bar>temps_fin h - horodatage_debut m\<bar> \<le> 2 powi 1023" using assms(1) t by simp
  from obtenir_resultats_total [OF c b] obtain r th nv where
    r: "fst (obtenir_resultats h m) = Inr r" "theme_r r = th" "niveau_r r = nv"
    and th: "valeur_commune theme qs = Inr th"
    and nv: "valeur_commune niveau qs = Inr nv"
    unfolding q by force
  have 1: "(\<forall>q \<in> set qs. theme q = v) \<longrightarrow> theme_r r = v"
    using valeur_commune_homogene [OF assms(2), of theme v] th r(2) by auto
  have 2: "(\<exists>q1 \<in> set qs. \<exists>q2 \<in> set qs. theme q1 \<noteq> theme q2) \<longrightarrow> theme_r r = ''mix''"
    using valeur_commune_mixte [of _ qs _ theme] th r(2) by auto
  have 3: "(\<forall>q \<in> set qs. niveau q = w) \<longrightarrow> niveau_r r = w"
    using valeur_commune_homogene [OF assms(2), of niveau w] nv r(3) by auto
  have 4: "(\<exists>q1 \<in> set qs. \<exists>q2 \<in> set qs. niveau q1 \<noteq> niveau q2) \<longrightarrow> niveau_r r = ''mix''"
    using valeur_commune_mixte [of _ qs _ niveau] nv r(3) by auto
  show ?thesis using r(1) 1 2 3 4 unfolding m_def by blast
qed

lemma partie_mixte_jouee:
  "partie_mixte =
     (MoteurQuiz_init [question_exemple 1 ''Histoire'' 0, question_exemple 2 ''Geographie'' 0]
        ''Ana'' 1000)
     \<lparr> index_question_actuelle := 2, mauvaises := 2, temps_ecoules := 2,
       historique_reponses :=
         [\<lparr> numero = 1, question = question_exemple 1 ''Histoire'' 0, reponse_choisie = None,
             est_correcte = False, temps_ecoule = True, temps_reponse = 20 \<rparr>,
          \<lparr> numero = 2, question = question_exemple 2 ''Geographie'' 0, reponse_choisie = None,
             est_correcte = False, temps_ecoule = True, temps_reponse = 20 \<rparr>] \<rparr>"
  by (simp add: partie_mixte_def MoteurQuiz_init_def enregistrer_reponse_def
      obtenir_question_actuelle_def obtenir_numero_question_def juger_def Let_def)

lemma resultats_mixte:
  "map_sum id (\<lambda>r. (theme_r r, niveau_r r))
     (fst (obtenir_resultats horloge_exemple partie_mixte)) = Inr (''mix'', ''facile'')"
proof -
  have th: "valeur_commune theme
      [question_exemple 1 ''Histoire'' 0, question_exemple 2 ''Geographie'' 0] = Inr ''mix''"
    by (rule valeur_commune_mixte [of "question_exemple 1 ''Histoire'' 0" _
          "question_exemple 2 ''Geographie'' 0"]) (simp_all add: question_exemple_def)
  have nv: "valeur_commune niveau
      [question_exemple 1 ''Histoire'' 0, question_exemple 2 ''Geographie'' 0] = Inr ''facile''"
    by (rule valeur_commune_homogene) (simp_all add: question_exemple_def)
  show ?thesis
    unfolding partie_mixte_jouee
    by (simp add: obtenir_resultats_def Let_def th nv horloge_exemple_def fl_42
        py_int_float_def MoteurQuiz_init_def calculer_pourcentage_def int_truediv_def
        py_round1_def)
qed

theorem obtenir_resultats_theme_niveau_witness:
  "\<bar>temps_fin horloge_exemple - 1000\<bar> \<le> 2 powi 1023
   \<and> [question_exemple 1 ''Histoire'' 2, question_exemple 2 ''Histoire'' 0,
       question_exemple 3 ''Histoire'' 1] \<noteq> []
   \<and> (\<exists>r. fst (obtenir_resultats horloge_exemple (jouer partie_exemple reponses_exemple)) = Inr r
          \<and> theme_r r = ''Histoire'' \<and> niveau_r r = ''facile'')
   \<and> (\<exists>r. fst (obtenir_resultats horloge_exemple partie_mixte) = Inr r
          \<and> theme_r r = ''mix'' \<and> niveau_r r = ''facile'')"
proof -
  have h: "\<bar>temps_fin horloge_exemple - 1000\<bar> \<le> 2 powi 1023"
    by (simp add: horloge_exemple_def)
  have n1: "[question_exemple 1 ''Histoire'' 2, question_exemple 2 ''Histoire'' 0,
       question_exemple 3 ''Histoire'' 1] \<noteq> []" by simp
  have n2: "[question_exemple 1 ''Histoire'' 0, question_exemple 2 ''Geographie'' 0] \<noteq> []"
    by simp
  have a: "\<exists>r. fst (obtenir_resultats horloge_exemple (jouer partie_exemple reponses_exemple)) = Inr r
          \<and> theme_r r = ''Histoire'' \<and> niveau_r r = ''facile''"
    using obtenir_resultats_theme_niveau [OF h n1, of "''Ana''" reponses_exemple
        "''Histoire''" "''facile''"]
    unfolding partie_exemple_def [symmetric]
    by (auto simp: question_exemple_def)
  have b: "\<exists>r. fst (obtenir_resultats horloge_exemple partie_mixte) = Inr r
          \<and> theme_r r = ''mix'' \<and> niveau_r r = ''facile''"
    using obtenir_resultats_theme_niveau [OF h n2, of "''Ana''"
        "[(None, True, 20), (None, True, 20)]" "''Histoire''" "''facile''"]
    unfolding partie_mixte_def [symmetric]
    by (auto simp: question_exemple_def)
  show ?thesis using h n1 a b by blast
qed

text \<open>
  Claim C8 as it is stated names the sentinel \<open>mixed\<close>: on a session with two themes the
  results carry \<open>mix\<close>, which is another text.
\<close>

theorem obtenir_resultats_sentinelle_counterexample:
  "theme (questions partie_mixte ! 0) \<noteq> theme (questions partie_mixte ! 1)
   \<and> map_sum id theme_r (fst (obtenir_resultats horloge_exemple partie_mixte)) = Inr ''mix''
   \<and> map_sum id theme_r (fst (obtenir_resultats horloge_exemple partie_mixte)) \<noteq> Inr ''mixed''"
proof -
  have 1: "theme (questions partie_mixte ! 0) \<noteq> theme (questions partie_mixte ! 1)"
    unfolding partie_mixte_jouee by (simp add: MoteurQuiz_init_def question_exemple_def)
  have 2: "map_sum id theme_r (fst (obtenir_resultats horloge_exemple partie_mixte)) = Inr ''mix''"
    using resultats_mixte
    by (cases "fst (obtenir_resultats horloge_exemple partie_mixte)") simp_all
  show ?thesis using 1 2 by simp
qed

section \<open>Sampling from the bank\<close>

subsection \<open>The shuffle and the sample\<close>

lemma length_melanger [simp]: "length (fst (melanger i xs g)) = length xs"
  by (induction i xs g rule: melanger.induct) (simp_all add: Let_def)

lemma j_borne: "Suc i < n \<Longrightarrow> k mod Suc (Suc i) < n"
proof -
  assume a: "Suc i < n"
  have "k mod Suc (Suc i) < Suc (Suc i)" by simp
  with a show ?thesis by linarith
qed

lemma mset_melanger: "i < length xs \<Longrightarrow> mset (fst (melanger i xs g)) = mset xs"
proof (induction i xs g rule: melanger.induct)
  case (1 xs g)
  then show ?case by simp
next
  case (2 i xs g)
  define j where "j = g 0 mod Suc (Suc i)"
  have j: "j < length xs" unfolding j_def using "2.prems" by (rule j_borne)
  have "mset (xs[Suc i := xs ! j, j := xs ! Suc i]) = mset xs"
    using mset_swap [OF j "2.prems"] .
  moreover have "mset (fst (melanger i (xs[Suc i := xs ! j, j := xs ! Suc i]) (suite g)))
      = mset (xs[Suc i := xs ! j, j := xs ! Suc i])"
    using 2 by (simp add: j_def)
  ultimately show ?case by (simp add: Let_def j_def)
qed

lemma mset_random_shuffle: "mset (fst (random_shuffle xs g)) = mset xs"
proof (cases xs)
  case Nil
  then show ?thesis by (simp add: random_shuffle_def)
next
  case (Cons x reste)
  then show ?thesis by (simp add: random_shuffle_def mset_melanger)
qed

lemma length_random_shuffle [simp]: "length (fst (random_shuffle xs g)) = length xs"
  by (simp add: random_shuffle_def)

lemma melanger_au_dela:
  "i < p \<Longrightarrow> fst (melanger i xs g) ! p = xs ! p"
proof (induction i xs g rule: melanger.induct)
  case (1 xs g)
  then show ?case by simp
next
  case (2 i xs g)
  define j where "j = g 0 mod Suc (Suc i)"
  have "j < Suc (Suc i)" by (simp add: j_def)
  with 2(2) have "j \<noteq> p" "Suc i \<noteq> p" by simp_all
  then have "(xs[Suc i := xs ! j, j := xs ! Suc i]) ! p = xs ! p" by simp
  moreover have "fst (melanger i (xs[Suc i := xs ! j, j := xs ! Suc i]) (suite g)) ! p
      = (xs[Suc i := xs ! j, j := xs ! Suc i]) ! p"
    using 2 by (simp add: j_def)
  ultimately show ?case by (simp add: Let_def j_def)
qed

lemma random_shuffle_dernier:
  assumes "2 \<le> length xs"
  shows "fst (random_shuffle xs g) ! (length xs - 1) = xs ! (g 0 mod length xs)"
proof -
  obtain i where i: "length xs - 1 = Suc i" using assms by (cases "length xs - 1") simp_all
  then have n: "length xs = Suc (Suc i)" by simp
  define j where "j = g 0 mod Suc (Suc i)"
  have jn: "j < Suc (Suc i)" by (simp add: j_def)
  have "fst (random_shuffle xs g) ! Suc i
      = fst (melanger i (xs[Suc i := xs ! j, j := xs ! Suc i]) (suite g)) ! Suc i"
    by (simp add: random_shuffle_def n Let_def j_def)
  also have "\<dots> = (xs[Suc i := xs ! j, j := xs ! Suc i]) ! Suc i"
    by (rule melanger_au_dela) simp
  also have "\<dots> = xs ! j" using n jn by (cases "j = Suc i") simp_all
  finally show ?thesis by (simp add: n j_def)
qed

lemma random_shuffle_peut_changer:
  assumes "q1 \<in> set xs" and "q2 \<in> set xs" and "q1 \<noteq> q2"
  shows "\<exists>g. fst (random_shuffle xs g) \<noteq> xs"
proof -
  from assms(1) obtain a where a: "a < length xs" "xs ! a = q1"
    by (auto simp: in_set_conv_nth)
  from assms(2) obtain b where b: "b < length xs" "xs ! b = q2"
    by (auto simp: in_set_conv_nth)
  define d where "d = xs ! (length xs - 1)"
  have "\<exists>k. k < length xs \<and> xs ! k \<noteq> d"
  proof (cases "q1 = d")
    case True
    with assms(3) b show ?thesis by blast
  next
    case False
    with a show ?thesis by blast
  qed
  then obtain k where k: "k < length xs" "xs ! k \<noteq> d" by blast
  have "k \<noteq> length xs - 1" using k(2) by (auto simp: d_def)
  with k(1) have l: "2 \<le> length xs" by linarith
  have m: "k mod length xs = k" using k(1) by simp
  have e: "fst (random_shuffle xs (\<lambda>_. k)) ! (length xs - 1) = xs ! k"
    using random_shuffle_dernier [OF l, of "\<lambda>_. k"] by (simp only: m)
  have "xs ! k \<noteq> xs ! (length xs - 1)" using k(2) unfolding d_def .
  then have "fst (random_shuffle xs (\<lambda>_. k)) ! (length xs - 1) \<noteq> xs ! (length xs - 1)"
    unfolding e .
  then have "fst (random_shuffle xs (\<lambda>_. k)) \<noteq> xs" by (rule contrapos_nn) (simp only:)
  then show ?thesis by (rule exI [where x = "\<lambda>_. k"])
qed

lemma length_tirer [simp]: "length (fst (tirer k restant bassin g)) = k"
proof (induction k restant bassin g rule: tirer.induct)
  case (1 restant bassin g)
  then show ?case by simp
next
  case (2 k restant bassin g)
  then show ?case by (simp add: Let_def split_beta)
qed

lemma length_tirer_distincts:
  "tirer_distincts k choisis population g = Some (echantillon, g') \<Longrightarrow> length echantillon = k"
proof (induction k arbitrary: choisis g echantillon g')
  case 0
  then show ?case by simp
next
  case (Suc k)
  from Suc.prems obtain j g1 suivants where
    s: "tirer_distincts k (j # choisis) population g1 = Some (suivants, g')"
    and e: "echantillon = population ! j # suivants"
    by (auto split: option.splits prod.splits)
  from Suc.IH [OF s] e show ?case by simp
qed

lemma random_sample_length:
  assumes "random_sample population k g = Some (Inr (echantillon, g'))"
  shows "int (length echantillon) = k"
proof -
  from assms have k: "0 \<le> k"
    by (auto simp: random_sample_def split: if_splits)
  from assms consider
      "echantillon = fst (tirer (nat k) (length population) population g)"
    | "tirer_distincts (nat k) [] population g = Some (echantillon, g')"
    by (auto simp: random_sample_def split: if_splits)
  then have "length echantillon = nat k"
  proof cases
    case 1
    then show ?thesis by simp
  next
    case 2
    then show ?thesis by (rule length_tirer_distincts)
  qed
  with k show ?thesis by simp
qed

lemma filtrer_sans_theme:
  "themes = None \<or> themes = Some [] \<Longrightarrow> filtrer b themes None = ListeDeLaBanque"
  by (auto simp: filtrer_def)

lemma filtrer_avec_theme:
  "filtrer b (Some (t # ts)) None
     = NouvelleListe (filter (\<lambda>q. theme q \<in> set (t # ts)) (bq_questions b))"
  by (simp add: filtrer_def)

lemma echantillonner_vide:
  "contenu_liste b (filtrer b themes None) = [] \<Longrightarrow>
   echantillonner_questions g b nombre themes = Some (Inr [], b, g)"
  by (simp add: echantillonner_questions_def Let_def)

lemma echantillonner_melange:
  assumes "contenu_liste b (filtrer b themes None) \<noteq> []"
    and "int (length (contenu_liste b (filtrer b themes None))) \<le> min nombre 10"
  shows "echantillonner_questions g b nombre themes =
           Some (Inr (fst (random_shuffle (contenu_liste b (filtrer b themes None)) g)),
            (case filtrer b themes None of
               ListeDeLaBanque \<Rightarrow>
                 b\<lparr> bq_questions := fst (random_shuffle (contenu_liste b (filtrer b themes None)) g) \<rparr>
             | NouvelleListe _ \<Rightarrow> b),
            snd (random_shuffle (contenu_liste b (filtrer b themes None)) g))"
proof -
  define reserve where "reserve = contenu_liste b (filtrer b themes None)"
  have c: "int (length reserve) \<le> min nombre 10"
    using assms(2) unfolding reserve_def .
  then have l0: "length reserve \<le> nat (min nombre 10)" by linarith
  then have l: "length (fst (random_shuffle reserve g)) \<le> nat (min nombre 10)"
    by simp
  have t: "take (nat (min nombre 10)) (fst (random_shuffle reserve g)) = fst (random_shuffle reserve g)"
    using l by (rule take_all)
  have n: "reserve \<noteq> []" using assms(1) unfolding reserve_def .
  have "echantillonner_questions g b nombre themes =
      (let (melange, g') = random_shuffle reserve g;
           b' = (case filtrer b themes None of
                   ListeDeLaBanque \<Rightarrow> b\<lparr> bq_questions := melange \<rparr>
                 | NouvelleListe _ \<Rightarrow> b)
       in Some (Inr (take (nat (min nombre 10)) melange), b', g'))"
    unfolding echantillonner_questions_def Let_def NOMBRE_QUESTIONS_MAX_def reserve_def [symmetric]
    using n c by simp
  also have "\<dots> = Some (Inr (fst (random_shuffle reserve g)),
            (case filtrer b themes None of
               ListeDeLaBanque \<Rightarrow> b\<lparr> bq_questions := fst (random_shuffle reserve g) \<rparr>
             | NouvelleListe _ \<Rightarrow> b),
            snd (random_shuffle reserve g))"
    by (simp only: Let_def split_beta t)
  finally show ?thesis unfolding reserve_def .
qed

lemma echantillonner_tirage:
  assumes "contenu_liste b (filtrer b themes None) \<noteq> []"
    and "\<not> int (length (contenu_liste b (filtrer b themes None))) \<le> min nombre 10"
  shows "echantillonner_questions g b nombre themes =
           (case random_sample (contenu_liste b (filtrer b themes None)) (min nombre 10) g of
              None \<Rightarrow> None
            | Some (Inl e) \<Rightarrow> Some (Inl e, b, g)
            | Some (Inr (echantillon, g')) \<Rightarrow> Some (Inr echantillon, b, g'))"
  unfolding echantillonner_questions_def Let_def NOMBRE_QUESTIONS_MAX_def
  using assms by (simp only: if_False)

lemma echantillonner_au_plus_dix:
  assumes "echantillonner_questions g b nombre themes = Some (Inr qs, b', g')"
  shows "length qs \<le> 10"
proof (cases "contenu_liste b (filtrer b themes None) = []")
  case True
  with assms show ?thesis by (simp add: echantillonner_vide)
next
  case False
  show ?thesis
  proof (cases "int (length (contenu_liste b (filtrer b themes None))) \<le> min nombre 10")
    case True
    have "qs = fst (random_shuffle (contenu_liste b (filtrer b themes None)) g)"
      using assms unfolding echantillonner_melange [OF False True] by simp
    with True show ?thesis by simp
  next
    case sup: False
    from assms obtain g1 where
      "random_sample (contenu_liste b (filtrer b themes None)) (min nombre 10) g = Some (Inr (qs, g1))"
      unfolding echantillonner_tirage [OF False sup]
      by (auto split: option.splits sum.splits prod.splits)
    then have "int (length qs) = min nombre 10" by (rule random_sample_length)
    then show ?thesis by linarith
  qed
qed

text \<open>
  Claim C5.  When the pool left by the theme filter has \<open>N \<le> 10\<close> distinct questions, a
  request for 10 returns exactly \<open>min N 10\<close> questions, without duplicates: they are the
  questions of the pool in some order.  With an empty pool the result is the empty list, for
  every requested count; and for every bank, pool and requested count a list that is returned
  has at most 10 questions.
\<close>

theorem echantillonner_dix:
  "(distinct (contenu_liste b (filtrer b themes None))
      \<and> length (contenu_liste b (filtrer b themes None)) \<le> 10 \<longrightarrow>
      (\<exists>qs b' g'. echantillonner_questions g b 10 themes = Some (Inr qs, b', g')
         \<and> length qs = min (length (contenu_liste b (filtrer b themes None))) 10
         \<and> distinct qs
         \<and> mset qs = mset (contenu_liste b (filtrer b themes None))))
   \<and> (contenu_liste b (filtrer b themes None) = [] \<longrightarrow>
         echantillonner_questions g b nombre themes = Some (Inr [], b, g))
   \<and> (\<forall>qs b' g'. echantillonner_questions g b nombre themes = Some (Inr qs, b', g') \<longrightarrow>
         length qs \<le> 10)"
proof -
  define reserve where "reserve = contenu_liste b (filtrer b themes None)"
  have vide: "reserve = [] \<longrightarrow> echantillonner_questions g b nombre themes = Some (Inr [], b, g)"
    by (simp add: reserve_def echantillonner_vide)
  have borne: "\<forall>qs b' g'. echantillonner_questions g b nombre themes = Some (Inr qs, b', g') \<longrightarrow>
         length qs \<le> 10"
    using echantillonner_au_plus_dix by blast
  have tout: "\<exists>qs b' g'. echantillonner_questions g b 10 themes = Some (Inr qs, b', g')
            \<and> length qs = min (length reserve) 10 \<and> distinct qs \<and> mset qs = mset reserve"
    if d: "distinct reserve" and l: "length reserve \<le> 10"
  proof (cases "reserve = []")
    case True
    then have "echantillonner_questions g b 10 themes = Some (Inr [], b, g)"
      by (simp add: reserve_def echantillonner_vide)
    with True show ?thesis by simp
  next
    case False
    define qs where "qs = fst (random_shuffle reserve g)"
    have n: "contenu_liste b (filtrer b themes None) \<noteq> []" using False unfolding reserve_def .
    have c: "int (length (contenu_liste b (filtrer b themes None))) \<le> min 10 10"
      using l by (simp add: reserve_def)
    have r: "\<exists>b' g'. echantillonner_questions g b 10 themes = Some (Inr qs, b', g')"
      unfolding echantillonner_melange [OF n c] qs_def reserve_def by blast
    have m: "mset qs = mset reserve" by (simp add: qs_def mset_random_shuffle)
    have dq: "distinct qs" using m d mset_eq_imp_distinct_iff by blast
    have lq: "length qs = min (length reserve) 10" using l by (simp add: qs_def)
    from r lq dq m show ?thesis by blast
  qed
  from tout vide borne show ?thesis unfolding reserve_def by blast
qed

text \<open>The example bank, filtered by a theme it has and by a theme it has not.\<close>

lemma alea_zero_0 [simp]: "alea_zero k = 0"
  by (simp add: alea_zero_def)

lemma suite_alea_zero [simp]: "suite alea_zero = alea_zero"
  by (simp add: suite_def alea_zero_def)

lemma reserve_histoire:
  "contenu_liste banque_exemple (filtrer banque_exemple (Some [''Histoire'']) None)
     = [question_exemple 1 ''Histoire'' 2, question_exemple 3 ''Histoire'' 1]"
  by (simp add: contenu_liste_def filtrer_def banque_exemple_def question_exemple_def)

lemma reserve_sport:
  "contenu_liste banque_exemple (filtrer banque_exemple (Some [''Sport'']) None) = []"
  by (simp add: contenu_liste_def filtrer_def banque_exemple_def question_exemple_def)

theorem echantillonner_dix_witness:
  "distinct (contenu_liste banque_exemple (filtrer banque_exemple (Some [''Histoire'']) None))
   \<and> length (contenu_liste banque_exemple (filtrer banque_exemple (Some [''Histoire'']) None)) = 2
   \<and> (\<exists>qs b' g'. echantillonner_questions alea_zero banque_exemple 10 (Some [''Histoire''])
                    = Some (Inr qs, b', g')
         \<and> length qs = 2 \<and> distinct qs \<and> length qs \<le> 10)
   \<and> contenu_liste banque_exemple (filtrer banque_exemple (Some [''Sport'']) None) = []
   \<and> echantillonner_questions alea_zero banque_exemple 10 (Some [''Sport''])
        = Some (Inr [], banque_exemple, alea_zero)"
proof -
  have d: "distinct (contenu_liste banque_exemple (filtrer banque_exemple (Some [''Histoire'']) None))"
    unfolding reserve_histoire by (simp add: question_exemple_def)
  have l: "length (contenu_liste banque_exemple (filtrer banque_exemple (Some [''Histoire'']) None)) = 2"
    unfolding reserve_histoire by simp
  have a: "\<exists>qs b' g'. echantillonner_questions alea_zero banque_exemple 10 (Some [''Histoire''])
                    = Some (Inr qs, b', g')
         \<and> length qs = 2 \<and> distinct qs \<and> length qs \<le> 10"
    using echantillonner_dix [of banque_exemple "Some [''Histoire'']" alea_zero 10] d l
    by (simp only: min_def) auto
  have b: "echantillonner_questions alea_zero banque_exemple 10 (Some [''Sport''])
        = Some (Inr [], banque_exemple, alea_zero)"
    using echantillonner_dix [of banque_exemple "Some [''Sport'']" alea_zero 10] reserve_sport
    by simp
  from d l a b reserve_sport show ?thesis by simp
qed

subsection \<open>The effect of sampling on the bank\<close>

lemma melange_en_place:
  assumes "themes = None \<or> themes = Some []"
    and "int (length (bq_questions b)) \<le> min nombre 10"
  shows "echantillonner_questions g b nombre themes
           = Some (Inr (fst (random_shuffle (bq_questions b) g)),
                   b\<lparr> bq_questions := fst (random_shuffle (bq_questions b) g) \<rparr>,
                   snd (random_shuffle (bq_questions b) g))"
proof -
  have f: "filtrer b themes None = ListeDeLaBanque"
    using assms(1) by (rule filtrer_sans_theme)
  have c: "contenu_liste b (filtrer b themes None) = bq_questions b"
    by (simp add: f contenu_liste_def)
  show ?thesis
  proof (cases "bq_questions b = []")
    case True
    have "echantillonner_questions g b nombre themes = Some (Inr [], b, g)"
      using True c by (simp add: echantillonner_vide)
    moreover have "random_shuffle (bq_questions b) g = ([], g)"
      using True by (simp add: random_shuffle_def)
    moreover have "b\<lparr> bq_questions := [] \<rparr> = b" using True by simp
    ultimately show ?thesis by simp
  next
    case False
    have n: "contenu_liste b (filtrer b themes None) \<noteq> []" using False c by simp
    have l: "int (length (contenu_liste b (filtrer b themes None))) \<le> min nombre 10"
      using assms(2) c by simp
    show ?thesis
      unfolding echantillonner_melange [OF n l] by (simp add: f contenu_liste_def)
  qed
qed

text \<open>
  Claim C10, with the count as the code uses it.  The requested count is first cut down to
  \<open>NOMBRE_QUESTIONS_MAX\<close>.  When no theme filter is given (\<open>None\<close> or the empty list) and
  the bank has at most that many questions, the call returns the shuffled list, and this
  list is the bank's own: the bank holds its questions in the shuffled order afterwards, the
  same questions as before.  If two questions of the bank differ, some run of the generator
  leaves the bank in another order than it had.
\<close>

theorem echantillonner_melange_en_place:
  assumes "themes = None \<or> themes = Some []"
    and "int (length (bq_questions b)) \<le> min nombre 10"
  shows "echantillonner_questions g b nombre themes
           = Some (Inr (fst (random_shuffle (bq_questions b) g)),
                   b\<lparr> bq_questions := fst (random_shuffle (bq_questions b) g) \<rparr>,
                   snd (random_shuffle (bq_questions b) g))
         \<and> mset (fst (random_shuffle (bq_questions b) g)) = mset (bq_questions b)
         \<and> (q1 \<in> set (bq_questions b) \<and> q2 \<in> set (bq_questions b) \<and> q1 \<noteq> q2 \<longrightarrow>
              (\<exists>g1 r b' g2. echantillonner_questions g1 b nombre themes = Some (r, b', g2)
                 \<and> bq_questions b' \<noteq> bq_questions b
                 \<and> mset (bq_questions b') = mset (bq_questions b)))"
proof -
  have a: "echantillonner_questions g b nombre themes
           = Some (Inr (fst (random_shuffle (bq_questions b) g)),
                   b\<lparr> bq_questions := fst (random_shuffle (bq_questions b) g) \<rparr>,
                   snd (random_shuffle (bq_questions b) g))"
    using assms by (rule melange_en_place)
  have m: "mset (fst (random_shuffle (bq_questions b) g)) = mset (bq_questions b)"
    by (rule mset_random_shuffle)
  have c: "\<exists>g1 r b' g2. echantillonner_questions g1 b nombre themes = Some (r, b', g2)
                 \<and> bq_questions b' \<noteq> bq_questions b
                 \<and> mset (bq_questions b') = mset (bq_questions b)"
    if d: "q1 \<in> set (bq_questions b)" "q2 \<in> set (bq_questions b)" "q1 \<noteq> q2"
  proof -
    from random_shuffle_peut_changer [OF d] obtain g1 where
      g1: "fst (random_shuffle (bq_questions b) g1) \<noteq> bq_questions b" by blast
    define b' where "b' = b\<lparr> bq_questions := fst (random_shuffle (bq_questions b) g1) \<rparr>"
    have 1: "echantillonner_questions g1 b nombre themes
           = Some (Inr (fst (random_shuffle (bq_questions b) g1)), b',
                   snd (random_shuffle (bq_questions b) g1))"
      unfolding b'_def using assms by (rule melange_en_place)
    have 2: "bq_questions b' \<noteq> bq_questions b" using g1 by (simp add: b'_def)
    have 3: "mset (bq_questions b') = mset (bq_questions b)"
      by (simp add: b'_def mset_random_shuffle)
    from 1 2 3 show ?thesis by blast
  qed
  from a m c show ?thesis by blast
qed

lemma melange_exemple:
  "random_shuffle (bq_questions banque_exemple) alea_zero
     = ([question_exemple 2 ''Geographie'' 0, question_exemple 3 ''Histoire'' 1,
         question_exemple 1 ''Histoire'' 2], alea_zero)"
proof -
  have "random_shuffle (bq_questions banque_exemple) alea_zero
      = melanger (Suc (Suc 0)) (bq_questions banque_exemple) alea_zero"
    by (simp add: random_shuffle_def banque_exemple_def)
  also have "\<dots> = ([question_exemple 2 ''Geographie'' 0, question_exemple 3 ''Histoire'' 1,
         question_exemple 1 ''Histoire'' 2], alea_zero)"
    by (simp add: banque_exemple_def Let_def)
  finally show ?thesis .
qed

theorem echantillonner_melange_en_place_witness:
  "int (length (bq_questions banque_exemple)) \<le> min 10 10
   \<and> question_exemple 1 ''Histoire'' 2 \<in> set (bq_questions banque_exemple)
   \<and> question_exemple 2 ''Geographie'' 0 \<in> set (bq_questions banque_exemple)
   \<and> question_exemple 1 ''Histoire'' 2 \<noteq> question_exemple 2 ''Geographie'' 0
   \<and> echantillonner_questions alea_zero banque_exemple 10 None
       = Some (Inr [question_exemple 2 ''Geographie'' 0, question_exemple 3 ''Histoire'' 1,
                    question_exemple 1 ''Histoire'' 2],
               banque_exemple\<lparr> bq_questions :=
                 [question_exemple 2 ''Geographie'' 0, question_exemple 3 ''Histoire'' 1,
                  question_exemple 1 ''Histoire'' 2] \<rparr>,
               alea_zero)
   \<and> (\<exists>g1 r b' g2. echantillonner_questions g1 banque_exemple 10 None = Some (r, b', g2)
         \<and> bq_questions b' \<noteq> bq_questions banque_exemple
         \<and> mset (bq_questions b') = mset (bq_questions banque_exemple))"
proof -
  have l: "int (length (bq_questions banque_exemple)) \<le> min 10 10"
    by (simp add: banque_exemple_def)
  have q: "question_exemple 1 ''Histoire'' 2 \<in> set (bq_questions banque_exemple)
     \<and> question_exemple 2 ''Geographie'' 0 \<in> set (bq_questions banque_exemple)
     \<and> question_exemple 1 ''Histoire'' 2 \<noteq> question_exemple 2 ''Geographie'' 0"
    by (simp add: banque_exemple_def question_exemple_def)
  have t: "(None :: string list option) = None \<or> None = Some []" by simp
  show ?thesis
    using echantillonner_melange_en_place [OF t l, of alea_zero
        "question_exemple 1 ''Histoire'' 2" "question_exemple 2 ''Geographie'' 0"] l q
    by (simp add: melange_exemple)
qed

lemma taille_ensemble_dix: "taille_ensemble 10 = 85"
  by (simp add: taille_ensemble_def)

lemma onze_questions: "length (bq_questions banque_onze) = 11"
  by (simp add: banque_onze_def)

lemma tirage_onze:
  "echantillonner_questions alea_zero banque_onze 11 None
     = Some (Inr (fst (tirer 10 11 (bq_questions banque_onze) alea_zero)), banque_onze,
             snd (tirer 10 11 (bq_questions banque_onze) alea_zero))"
proof -
  have c: "contenu_liste banque_onze (filtrer banque_onze None None) = bq_questions banque_onze"
    by (simp add: filtrer_def contenu_liste_def)
  have n: "contenu_liste banque_onze (filtrer banque_onze None None) \<noteq> []"
    unfolding c using onze_questions by auto
  have s: "\<not> int (length (contenu_liste banque_onze (filtrer banque_onze None None))) \<le> min 11 10"
    unfolding c onze_questions by simp
  have r: "random_sample (bq_questions banque_onze) 10 alea_zero
      = Some (Inr (tirer 10 11 (bq_questions banque_onze) alea_zero))"
    by (simp add: random_sample_def onze_questions taille_ensemble_dix)
  show ?thesis
    unfolding echantillonner_tirage [OF n s] c using r by (simp add: split_beta)
qed

lemma melange_onze:
  "fst (random_shuffle (bq_questions banque_onze) alea_zero) \<noteq> bq_questions banque_onze"
proof
  assume e: "fst (random_shuffle (bq_questions banque_onze) alea_zero) = bq_questions banque_onze"
  have "2 \<le> length (bq_questions banque_onze)" by (simp add: onze_questions)
  from random_shuffle_dernier [OF this, of alea_zero]
  have "bq_questions banque_onze ! 10 = bq_questions banque_onze ! 0"
    unfolding e by (simp add: onze_questions)
  then show False by (simp add: banque_onze_def question_exemple_def)
qed

text \<open>
  Claim C10 as it is stated takes the requested count itself.  A bank of eleven questions
  asked for eleven has at most the requested count, but the count used is 10, so the
  questions are drawn by \<open>random.sample\<close> from a copy and the bank keeps its order, where a
  shuffle with the same generator would have changed it.
\<close>

theorem echantillonner_sans_melange_counterexample:
  "int (length (bq_questions banque_onze)) \<le> 11
   \<and> echantillonner_questions alea_zero banque_onze 11 None \<noteq> None
   \<and> fst (snd (the (echantillonner_questions alea_zero banque_onze 11 None))) = banque_onze
   \<and> fst (random_shuffle (bq_questions banque_onze) alea_zero) \<noteq> bq_questions banque_onze"
  using melange_onze by (simp add: tirage_onze onze_questions)


section \<open>The score store\<close>

subsection \<open>A failed save\<close>

text \<open>
  Claim C9, with the report as the code makes it.  When the write fails (at the opening of
  the temporary file, during the writing, or in the replacement), the store file is what it
  was before the call, and no \<open>IOError\<close> reaches the caller: where the store could be read
  as a list, the call returns \<open>None\<close> and the failure is printed, once.
\<close>

theorem sauvegarder_score_panne:
  assumes "p \<noteq> SansPanne"
  shows "fst (sauvegarder_score p d entree) \<noteq> Inl IOError
       \<and> fichier_scores (fst (snd (sauvegarder_score p d entree))) = fichier_scores d
       \<and> (charger_tous (fichier_scores d) = Inr (JList tous) \<longrightarrow>
            fst (sauvegarder_score p d entree) = Inr ()
            \<and> snd (snd (sauvegarder_score p d entree)) = [ErreurSauvegarde])"
proof -
  have 1: "fst (sauvegarder_score p d entree) \<noteq> Inl IOError"
    by (cases "fichier_scores d"; cases p)
      (auto simp: sauvegarder_score_def charger_tous_def split: json.splits)
  have 2: "fichier_scores (fst (snd (sauvegarder_score p d entree))) = fichier_scores d"
    using assms
    by (cases "fichier_scores d"; cases p)
      (auto simp: sauvegarder_score_def charger_tous_def split: json.splits)
  have 3: "fst (sauvegarder_score p d entree) = Inr ()
            \<and> snd (snd (sauvegarder_score p d entree)) = [ErreurSauvegarde]"
    if "charger_tous (fichier_scores d) = Inr (JList tous)"
    using assms that by (cases p) (simp_all add: sauvegarder_score_def)
  from 1 2 3 show ?thesis by blast
qed

theorem sauvegarder_score_panne_witness:
  "EcritureInterrompue \<noteq> SansPanne
   \<and> charger_tous (fichier_scores disque_exemple)
       = Inr (JList [entree_exemple ''Ana'' ''Histoire'' 2 50 ''2024-01-01T12:00:00+00:00'',
                     entree_exemple ''Luc'' ''Histoire'' 3 75 ''2024-01-02T12:00:00+00:00''])
   \<and> fst (sauvegarder_score EcritureInterrompue disque_exemple
            (entree_exemple ''Eve'' ''Histoire'' 1 25 ''2024-01-03T12:00:00+00:00'')) = Inr ()
   \<and> fichier_scores (fst (snd (sauvegarder_score EcritureInterrompue disque_exemple
            (entree_exemple ''Eve'' ''Histoire'' 1 25 ''2024-01-03T12:00:00+00:00''))))
       = fichier_scores disque_exemple
   \<and> snd (snd (sauvegarder_score EcritureInterrompue disque_exemple
            (entree_exemple ''Eve'' ''Histoire'' 1 25 ''2024-01-03T12:00:00+00:00'')))
       = [ErreurSauvegarde]"
proof -
  have p: "EcritureInterrompue \<noteq> SansPanne" by simp
  have c: "charger_tous (fichier_scores disque_exemple)
       = Inr (JList [entree_exemple ''Ana'' ''Histoire'' 2 50 ''2024-01-01T12:00:00+00:00'',
                     entree_exemple ''Luc'' ''Histoire'' 3 75 ''2024-01-02T12:00:00+00:00''])"
    by (simp add: charger_tous_def disque_exemple_def)
  show ?thesis
    using sauvegarder_score_panne [OF p, of disque_exemple
        "entree_exemple ''Eve'' ''Histoire'' 1 25 ''2024-01-03T12:00:00+00:00''"
        "[entree_exemple ''Ana'' ''Histoire'' 2 50 ''2024-01-01T12:00:00+00:00'',
          entree_exemple ''Luc'' ''Histoire'' 3 75 ''2024-01-02T12:00:00+00:00'']"] c
    by simp
qed

text \<open>
  Claim C9 as it is stated has the failure reported to the caller as an I/O error.  When the
  temporary file cannot be opened, the caller receives \<open>None\<close>, as after a successful save;
  the failure is only printed.
\<close>

theorem sauvegarder_score_silence_counterexample:
  "fst (sauvegarder_score OuvertureImpossible disque_exemple
          (entree_exemple ''Eve'' ''Histoire'' 1 25 ''2024-01-03T12:00:00+00:00'')) = Inr ()
   \<and> fst (sauvegarder_score OuvertureImpossible disque_exemple
          (entree_exemple ''Eve'' ''Histoire'' 1 25 ''2024-01-03T12:00:00+00:00''))
       \<noteq> Inl IOError
   \<and> snd (snd (sauvegarder_score OuvertureImpossible disque_exemple
          (entree_exemple ''Eve'' ''Histoire'' 1 25 ''2024-01-03T12:00:00+00:00'')))
       = [ErreurSauvegarde]"
  by (simp add: sauvegarder_score_def charger_tous_def disque_exemple_def)

end
